(* ===== verification/Prelude.thy ===== *)
theory Prelude
  imports Main "HOL-Library.Word"
begin

text \<open>
  Shared vocabulary of the development: the Go machine integers the code uses
  (\<open>int64\<close> for record ids, \<open>int32\<close> for the duration and the version), the
  model of \<open>time.Time\<close>, the view of a possibly-nil Go slice, and the generic
  facts on these that the component theories use.  The collection
  \<open>go_int_simps\<close> gathers the range facts on machine integers, so that the
  component proofs can say \<open>simp add: go_int_simps\<close>.
\<close>

named_theorems go_int_simps "range facts on the Go machine integers"

type_synonym int64 = "64 word"
type_synonym int32 = "32 word"

text \<open>
  A \<open>time.Time\<close> is modelled as the number of seconds since Go's zero time
  \<open>0001-01-01 00:00:00 UTC\<close>; the zero value \<open>time.Time{}\<close> is \<open>0\<close>.
  Sub-second precision and time zones play no role in any claim.
\<close>

type_synonym time = int

definition go_zero_time :: time where
  "go_zero_time = 0"

text \<open>The ranges of Go's \<open>int64\<close> and \<open>int32\<close>, which are also PostgreSQL's
  \<open>bigint\<close> and \<open>integer\<close>.\<close>

definition in_int64 :: "int \<Rightarrow> bool" where
  "in_int64 i \<longleftrightarrow> - (2 ^ 63) \<le> i \<and> i \<le> 2 ^ 63 - 1"

definition in_int32 :: "int \<Rightarrow> bool" where
  "in_int32 i \<longleftrightarrow> - (2 ^ 31) \<le> i \<and> i \<le> 2 ^ 31 - 1"

text \<open>A Go slice is either \<open>nil\<close> (\<open>None\<close>) or a list of elements;
  \<open>len\<close> and \<open>range\<close> see \<open>nil\<close> as the empty slice.\<close>

definition slice_elems :: "'a list option \<Rightarrow> 'a list" where
  "slice_elems s = (case s of None \<Rightarrow> [] | Some xs \<Rightarrow> xs)"

lemma slice_elems_simps [simp]:
  "slice_elems None = []"
  "slice_elems (Some xs) = xs"
  by (simp_all add: slice_elems_def)

lemma one_le_length_iff [simp]: "(Suc 0 \<le> length xs) \<longleftrightarrow> xs \<noteq> []"
  by (cases xs) simp_all

lemma sint_in_int64 [go_int_simps]: "in_int64 (sint (w :: int64))"
  using sint_range_size [of w] by (simp add: in_int64_def word_size)

lemma sint_in_int32 [go_int_simps]: "in_int32 (sint (w :: int32))"
  using sint_range_size [of w] by (simp add: in_int32_def word_size)

lemma sint_word_of_int64 [go_int_simps]:
  "in_int64 i \<Longrightarrow> sint (word_of_int i :: int64) = i"
  by (simp add: in_int64_def int_word_sint)

lemma sint_word_of_int32 [go_int_simps]:
  "in_int32 i \<Longrightarrow> sint (word_of_int i :: int32) = i"
  by (simp add: in_int32_def int_word_sint)

lemma word_of_int_sint [go_int_simps]: "word_of_int (sint w) = (w :: 'a::len word)"
  by (simp add: scast_eq [symmetric])

lemma in_int32_in_int64 [go_int_simps]: "in_int32 i \<Longrightarrow> in_int64 i"
  by (simp add: in_int32_def in_int64_def)

end
