(* ===== verification/Validator.thy ===== *)
theory Validator
  imports Prelude
begin

text \<open>
  The validator helper \<open>internal/validator\<close> (imported by
  \<open>src/golang/internal/data/movies.go\<close>, its source is not in the repository).
  It is modelled from the specification (section 4.1): a validator holds a map
  from field name to message; \<open>Check\<close> records the message when the condition is
  false, the first message recorded for a field wins; \<open>Valid\<close> holds iff nothing
  is recorded; \<open>Unique\<close> holds iff the sequence has no duplicates.
  The map is an association list in the order the errors were added; the
  invariant \<open>wf_validator\<close> (no key twice) makes it a map, and every
  operation keeps it.
\<close>

record Validator =
  Errors :: "(string \<times> string) list"

definition New :: Validator where
  "New = \<lparr>Errors = []\<rparr>"

definition AddError :: "Validator \<Rightarrow> string \<Rightarrow> string \<Rightarrow> Validator" where
  "AddError v key message =
     (if map_of (Errors v) key = None then v\<lparr>Errors := Errors v @ [(key, message)]\<rparr> else v)"

definition Check :: "Validator \<Rightarrow> bool \<Rightarrow> string \<Rightarrow> string \<Rightarrow> Validator" where
  "Check v ok key message = (if ok then v else AddError v key message)"

definition Valid :: "Validator \<Rightarrow> bool" where
  "Valid v \<longleftrightarrow> Errors v = []"

definition Unique :: "'a list \<Rightarrow> bool" where
  "Unique values \<longleftrightarrow> distinct values"

definition wf_validator :: "Validator \<Rightarrow> bool" where
  "wf_validator v \<longleftrightarrow> distinct (map fst (Errors v))"

lemmas validator_defs = New_def AddError_def Check_def Valid_def

lemma wf_New [simp]: "wf_validator New"
  by (simp add: wf_validator_def New_def)

lemma Valid_New [simp]: "Valid New"
  by (simp add: Valid_def New_def)

lemma wf_AddError: "wf_validator v \<Longrightarrow> wf_validator (AddError v key message)"
  by (auto simp: wf_validator_def AddError_def map_of_eq_None_iff)

lemma wf_Check [simp]: "wf_validator v \<Longrightarrow> wf_validator (Check v ok key message)"
  by (simp add: Check_def wf_AddError)

text \<open>What one check does to the recorded message of a field: the first
  failing check of a field decides its message, later ones never change it.\<close>

lemma map_of_Check:
  "map_of (Errors (Check v ok key message)) k =
     (if \<not> ok \<and> k = key \<and> map_of (Errors v) k = None then Some message
      else map_of (Errors v) k)"
  by (auto simp: Check_def AddError_def map_of_append map_add_def split: option.splits)

lemma Errors_Check_empty_iff [simp]:
  "(Errors (Check v ok key message) = []) \<longleftrightarrow> ok \<and> Errors v = []"
  by (auto simp: Check_def AddError_def)

lemma Valid_Check [simp]: "Valid (Check v ok key message) \<longleftrightarrow> ok \<and> Valid v"
  by (simp add: Valid_def)

lemma Unique_iff [simp]: "Unique xs \<longleftrightarrow> distinct xs"
  by (simp add: Unique_def)

end
