(* ===== verification/Database.thy ===== *)
theory Database
  imports Prelude
begin

text \<open>
  The database the record store talks to: the PostgreSQL table
  \<open>module_info\<close>, the four SQL statements written in
  \<open>src/golang/internal/data/movies.go\<close>, and the two calls of Go's
  \<open>database/sql\<close> package (with the \<open>lib/pq\<close> driver) that the store makes:
  \<open>QueryRow(..).Scan(..)\<close> and \<open>Exec(..).RowsAffected()\<close>.
  \<^item> The table is a map from the \<open>bigserial\<close> id to a row, with the
    sequence's next value; \<open>online\<close> is false when the server cannot be
    reached, and every round trip then fails.
  \<^item> \<open>run\<close> is one round trip: the connection, the driver's check that
    the number of arguments is the number of placeholders of the statement,
    then the statement, atomically.  Its result is the number of rows
    affected and the rows returned.
  \<^item> \<open>row_scan\<close> is \<open>Row.Scan\<close>: the error of the query, else
    \<open>sql.ErrNoRows\<close> when no row came back, else the destination count must
    equal the column count, then each column is converted to its destination.
  Only the driver behaviour the store relies on is modelled; the
  cross-type conversions of \<open>convertAssign\<close> (an integer scanned into a
  string, say) are not, since no scan of the code reaches them.
\<close>

datatype sql_value =
    SqlNull
  | SqlInt int
  | SqlTime time
  | SqlText string
  | SqlTextArray "string list"

datatype sql_error =
    ErrNoRows                 \<comment> \<open>\<open>sql.ErrNoRows\<close>\<close>
  | ErrConnection             \<comment> \<open>the server cannot be reached\<close>
  | ErrBindCount nat nat      \<comment> \<open>lib/pq: got n parameters but the statement requires m\<close>
  | ErrScanCount nat nat      \<comment> \<open>sql: expected n destination arguments in Scan, not m\<close>
  | ErrScanConvert            \<comment> \<open>sql: a column does not convert to its destination\<close>
  | ErrParamType              \<comment> \<open>a parameter of the wrong SQL type\<close>
  | ErrInvalidText            \<comment> \<open>PostgreSQL: a text value with a NUL byte\<close>
  | ErrIntegerOutOfRange      \<comment> \<open>PostgreSQL: integer out of range\<close>
  | ErrSequenceExhausted      \<comment> \<open>PostgreSQL: nextval reached the maximum of the sequence\<close>

text \<open>A row of \<open>module_info\<close>: the columns after the id.\<close>

record row =
  col_created_at :: time
  col_updated_at :: time
  col_module_name :: string
  col_module_duration :: int
  col_exam_type :: "string list option"
  col_version :: int

record database =
  rows :: "int \<rightharpoonup> row"
  next_id :: int
  online :: bool

definition empty_database :: database where
  "empty_database = \<lparr>rows = Map.empty, next_id = 1, online = True\<rparr>"

lemma empty_database_simps [simp]:
  "rows empty_database = Map.empty" "next_id empty_database = 1" "online empty_database"
  by (simp_all add: empty_database_def)

datatype query = InsertModuleInfo | SelectModuleInfo | UpdateModuleInfo | DeleteModuleInfo

type_synonym query_result = "nat \<times> sql_value list list"

text \<open>The number of placeholders \<open>$n\<close> of each statement's text.\<close>

fun placeholders :: "query \<Rightarrow> nat" where
  "placeholders InsertModuleInfo = 5"
| "placeholders SelectModuleInfo = 1"
| "placeholders UpdateModuleInfo = 5"
| "placeholders DeleteModuleInfo = 1"

subsection \<open>Parameters\<close>

fun int_param :: "sql_value \<Rightarrow> int option" where
  "int_param (SqlInt i) = Some i"
| "int_param _ = None"

fun time_param :: "sql_value \<Rightarrow> time option" where
  "time_param (SqlTime t) = Some t"
| "time_param _ = None"

fun text_param :: "sql_value \<Rightarrow> string option" where
  "text_param (SqlText s) = Some s"
| "text_param _ = None"

text \<open>A \<open>text[]\<close> parameter: \<open>pq.Array\<close> of a nil slice is SQL \<open>NULL\<close>.\<close>

fun array_param :: "sql_value \<Rightarrow> string list option option" where
  "array_param SqlNull = Some None"
| "array_param (SqlTextArray xs) = Some (Some xs)"
| "array_param _ = None"

fun array_value :: "string list option \<Rightarrow> sql_value" where
  "array_value None = SqlNull"
| "array_value (Some xs) = SqlTextArray xs"

text \<open>PostgreSQL refuses a text value holding a NUL byte.\<close>

definition valid_text :: "string \<Rightarrow> bool" where
  "valid_text s \<longleftrightarrow> CHR 0x00 \<notin> set s"

definition valid_array :: "string list option \<Rightarrow> bool" where
  "valid_array a \<longleftrightarrow> (\<forall>s \<in> set (slice_elems a). valid_text s)"

subsection \<open>The statements of \<open>movies.go\<close>\<close>

text \<open>
  \<open>INSERT INTO module_info (created_at, updated_at, module_name,
  module_duration, exam_type) VALUES ($1, $2, $3, $4, $5) RETURNING id,
  created_at, version\<close>: the id is the sequence's next value, the version the
  column's default 1.
\<close>

fun insert_query :: "database \<Rightarrow> sql_value list \<Rightarrow> database \<times> (sql_error + query_result)" where
  "insert_query db [c, u, n, d, a] =
     (case (time_param c, time_param u, text_param n, int_param d, array_param a) of
        (Some c', Some u', Some n', Some d', Some et) \<Rightarrow>
          if \<not> valid_text n' \<or> \<not> valid_array et then (db, Inl ErrInvalidText)
          else if \<not> in_int32 d' then (db, Inl ErrIntegerOutOfRange)
          else if 2 ^ 63 - 1 < next_id db then (db, Inl ErrSequenceExhausted)
          else
            (let i = next_id db;
                 r = \<lparr>col_created_at = c', col_updated_at = u', col_module_name = n',
                      col_module_duration = d', col_exam_type = et, col_version = 1\<rparr>
             in (db\<lparr>rows := (rows db)(i \<mapsto> r), next_id := i + 1\<rparr>,
                 Inr (1, [[SqlInt i, SqlTime c', SqlInt 1]])))
      | _ \<Rightarrow> (db, Inl ErrParamType))"
| "insert_query db _ = (db, Inl ErrParamType)"

text \<open>
  \<open>SELECT id, created_at, module_name, module_duration, exam_type, version
  FROM module_info WHERE id = $1\<close>: six columns.
\<close>

fun select_query :: "database \<Rightarrow> sql_value list \<Rightarrow> database \<times> (sql_error + query_result)" where
  "select_query db [i] =
     (case int_param i of
        None \<Rightarrow> (db, Inl ErrParamType)
      | Some k \<Rightarrow>
          (case rows db k of
             None \<Rightarrow> (db, Inr (0, []))
           | Some r \<Rightarrow> (db, Inr (1, [[SqlInt k, SqlTime (col_created_at r),
                SqlText (col_module_name r), SqlInt (col_module_duration r),
                array_value (col_exam_type r), SqlInt (col_version r)]]))))"
| "select_query db _ = (db, Inl ErrParamType)"

text \<open>
  \<open>UPDATE module_info SET module_name = $1, module_duration = $2,
  exam_type = $3, version = version + 1 WHERE id = $4 AND version = $5
  RETURNING version\<close>: a compare-and-set on the version.  No row matches when
  the id is absent or the version is stale; \<open>version + 1\<close> past the
  \<open>integer\<close> range is an error of the statement.
\<close>

fun update_query :: "database \<Rightarrow> sql_value list \<Rightarrow> database \<times> (sql_error + query_result)" where
  "update_query db [n, d, a, i, v] =
     (case (text_param n, int_param d, array_param a, int_param i, int_param v) of
        (Some n', Some d', Some et, Some k, Some ver) \<Rightarrow>
          if \<not> valid_text n' \<or> \<not> valid_array et then (db, Inl ErrInvalidText)
          else if \<not> in_int32 d' \<or> \<not> in_int32 ver then (db, Inl ErrIntegerOutOfRange)
          else
            (case rows db k of
               None \<Rightarrow> (db, Inr (0, []))
             | Some r \<Rightarrow>
                 if col_version r \<noteq> ver then (db, Inr (0, []))
                 else if \<not> in_int32 (ver + 1) then (db, Inl ErrIntegerOutOfRange)
                 else
                   (let r' = r\<lparr>col_module_name := n', col_module_duration := d',
                               col_exam_type := et, col_version := ver + 1\<rparr>
                    in (db\<lparr>rows := (rows db)(k \<mapsto> r')\<rparr>, Inr (1, [[SqlInt (ver + 1)]]))))
      | _ \<Rightarrow> (db, Inl ErrParamType))"
| "update_query db _ = (db, Inl ErrParamType)"

text \<open>\<open>DELETE FROM module_info WHERE id = $1\<close>.\<close>

fun delete_query :: "database \<Rightarrow> sql_value list \<Rightarrow> database \<times> (sql_error + query_result)" where
  "delete_query db [i] =
     (case int_param i of
        None \<Rightarrow> (db, Inl ErrParamType)
      | Some k \<Rightarrow>
          (case rows db k of
             None \<Rightarrow> (db, Inr (0, []))
           | Some _ \<Rightarrow> (db\<lparr>rows := (rows db)(k := None)\<rparr>, Inr (1, []))))"
| "delete_query db _ = (db, Inl ErrParamType)"

fun statement :: "query \<Rightarrow> database \<Rightarrow> sql_value list \<Rightarrow> database \<times> (sql_error + query_result)" where
  "statement InsertModuleInfo = insert_query"
| "statement SelectModuleInfo = select_query"
| "statement UpdateModuleInfo = update_query"
| "statement DeleteModuleInfo = delete_query"

subsection \<open>The driver\<close>

definition run :: "database \<Rightarrow> query \<Rightarrow> sql_value list \<Rightarrow> database \<times> (sql_error + query_result)" where
  "run db q args =
     (if \<not> online db then (db, Inl ErrConnection)
      else if length args \<noteq> placeholders q
      then (db, Inl (ErrBindCount (length args) (placeholders q)))
      else statement q db args)"

datatype go_dest = DestInt64 | DestInt32 | DestTime | DestString | DestStringArray

datatype go_value =
    GoInt64 int64
  | GoInt32 int32
  | GoTime time
  | GoString string
  | GoStringArray "string list option"

fun convert_assign :: "go_dest \<Rightarrow> sql_value \<Rightarrow> sql_error + go_value" where
  "convert_assign DestInt64 (SqlInt i) =
     (if in_int64 i then Inr (GoInt64 (word_of_int i)) else Inl ErrScanConvert)"
| "convert_assign DestInt32 (SqlInt i) =
     (if in_int32 i then Inr (GoInt32 (word_of_int i)) else Inl ErrScanConvert)"
| "convert_assign DestTime (SqlTime t) = Inr (GoTime t)"
| "convert_assign DestString (SqlText s) = Inr (GoString s)"
| "convert_assign DestStringArray (SqlTextArray xs) = Inr (GoStringArray (Some xs))"
| "convert_assign DestStringArray SqlNull = Inr (GoStringArray None)"
| "convert_assign _ _ = Inl ErrScanConvert"

fun scan_columns :: "go_dest list \<Rightarrow> sql_value list \<Rightarrow> sql_error + go_value list" where
  "scan_columns (d # ds) (c # cs) =
     (case convert_assign d c of
        Inl e \<Rightarrow> Inl e
      | Inr v \<Rightarrow> (case scan_columns ds cs of Inl e \<Rightarrow> Inl e | Inr vs \<Rightarrow> Inr (v # vs)))"
| "scan_columns _ _ = Inr []"

definition row_scan :: "sql_error + query_result \<Rightarrow> go_dest list \<Rightarrow> sql_error + go_value list" where
  "row_scan r dests =
     (case r of
        Inl e \<Rightarrow> Inl e
      | Inr (_, []) \<Rightarrow> Inl ErrNoRows
      | Inr (_, cols # _) \<Rightarrow>
          if length cols \<noteq> length dests
          then Inl (ErrScanCount (length cols) (length dests))
          else scan_columns dests cols)"

subsection \<open>Evaluation rules\<close>

lemma array_param_array_value [simp]: "array_param (array_value a) = Some a"
  by (cases a) simp_all

lemma run_offline [simp]: "\<not> online db \<Longrightarrow> run db q args = (db, Inl ErrConnection)"
  by (simp add: run_def)

lemma run_bind_count [simp]:
  "online db \<Longrightarrow> length args \<noteq> placeholders q \<Longrightarrow>
     run db q args = (db, Inl (ErrBindCount (length args) (placeholders q)))"
  by (simp add: run_def)

lemma run_statement [simp]:
  "online db \<Longrightarrow> length args = placeholders q \<Longrightarrow> run db q args = statement q db args"
  by (simp add: run_def)

lemma row_scan_simps [simp]:
  "row_scan (Inl e) dests = Inl e"
  "row_scan (Inr (n, [])) dests = Inl ErrNoRows"
  "row_scan (Inr (n, cols # rest)) dests =
     (if length cols \<noteq> length dests then Inl (ErrScanCount (length cols) (length dests))
      else scan_columns dests cols)"
  by (simp_all add: row_scan_def)

subsection \<open>The table's invariant\<close>

text \<open>
  Ids are the sequence's earlier values, so they are positive and below its
  next value, which stays within \<open>bigint\<close>; the integer columns stay within
  \<open>integer\<close>, and versions start at 1 and only grow.
\<close>

definition row_inv :: "int \<Rightarrow> int \<Rightarrow> row \<Rightarrow> bool" where
  "row_inv nxt k r \<longleftrightarrow> 1 \<le> k \<and> k < nxt \<and> in_int32 (col_module_duration r) \<and>
     1 \<le> col_version r \<and> in_int32 (col_version r)"

definition db_inv :: "database \<Rightarrow> bool" where
  "db_inv db \<longleftrightarrow> 1 \<le> next_id db \<and> next_id db \<le> 2 ^ 63 \<and>
     (\<forall>k r. rows db k = Some r \<longrightarrow> row_inv (next_id db) k r)"

lemma db_inv_empty [simp]: "db_inv empty_database"
  by (simp add: db_inv_def empty_database_def)

lemma db_inv_online [simp]: "db_inv (db\<lparr>online := b\<rparr>) \<longleftrightarrow> db_inv db"
  by (simp add: db_inv_def)

lemma db_inv_row: "db_inv db \<Longrightarrow> rows db k = Some r \<Longrightarrow> row_inv (next_id db) k r"
  by (simp add: db_inv_def)

lemma db_inv_key_in_int64:
  "db_inv db \<Longrightarrow> rows db k = Some r \<Longrightarrow> in_int64 k"
proof -
  assume inv: "db_inv db" and k: "rows db k = Some r"
  then have "1 \<le> k" "k < next_id db" "next_id db \<le> 2 ^ 63"
    using db_inv_row [OF inv k] by (auto simp: row_inv_def db_inv_def)
  then show ?thesis by (simp add: in_int64_def)
qed

lemma row_inv_mono: "row_inv n k r \<Longrightarrow> n \<le> n' \<Longrightarrow> row_inv n' k r"
  by (simp add: row_inv_def)

lemma db_inv_add_row:
  assumes "db_inv db" "next_id db < 2 ^ 63" "in_int32 (col_module_duration r)"
    "col_version r = 1"
  shows "db_inv (db\<lparr>rows := (rows db)(next_id db \<mapsto> r), next_id := next_id db + 1\<rparr>)"
proof -
  have "row_inv (next_id db + 1) (next_id db) r"
    using assms by (simp add: row_inv_def db_inv_def in_int32_def)
  moreover have "row_inv (next_id db + 1) k r'" if "rows db k = Some r'" for k r'
    using db_inv_row [OF assms(1) that] by (rule row_inv_mono) simp
  ultimately show ?thesis
    using assms(1,2) by (simp add: db_inv_def)
qed

lemma db_inv_set_row:
  assumes "db_inv db" "rows db k = Some r" "in_int32 (col_module_duration r')"
    "col_version r \<le> col_version r'" "in_int32 (col_version r')"
  shows "db_inv (db\<lparr>rows := (rows db)(k \<mapsto> r')\<rparr>)"
proof -
  have "row_inv (next_id db) k r'"
    using db_inv_row [OF assms(1,2)] assms(3-5) by (simp add: row_inv_def)
  then show ?thesis
    using assms(1) by (simp add: db_inv_def)
qed

lemma db_inv_drop_row: "db_inv db \<Longrightarrow> db_inv (db\<lparr>rows := (rows db)(k := None)\<rparr>)"
  by (simp add: db_inv_def)

lemma insert_query_inv: "db_inv db \<Longrightarrow> db_inv (fst (insert_query db args))"
  by (cases "(db, args)" rule: insert_query.cases)
     (auto simp: Let_def intro!: db_inv_add_row split: option.splits)

lemma select_query_db: "fst (select_query db args) = db"
  by (cases "(db, args)" rule: select_query.cases) (auto split: option.splits)

lemma update_query_inv: "db_inv db \<Longrightarrow> db_inv (fst (update_query db args))"
  by (cases "(db, args)" rule: update_query.cases)
     (auto simp: Let_def intro: db_inv_set_row split: option.splits)

lemma delete_query_inv: "db_inv db \<Longrightarrow> db_inv (fst (delete_query db args))"
  by (cases "(db, args)" rule: delete_query.cases)
     (auto simp: db_inv_drop_row split: option.splits)

lemma run_inv: "db_inv db \<Longrightarrow> db_inv (fst (run db q args))"
  by (cases q) (simp_all add: run_def insert_query_inv select_query_db
     update_query_inv delete_query_inv)

end
