(* ===== verification/Helpers.thy ===== *)
theory Helpers
  imports Models
begin

text \<open>
  The helpers the handlers of \<open>src/golang/cmd/api/module.go\<close> call, whose
  sources (\<open>cmd/api/helpers.go\<close>) are not in the repository; they are modelled
  from the specification and from the documented behaviour of the Go library
  functions they wrap:
  \<^item> \<open>readIDParam\<close>: the router's \<open>id\<close> parameter through
    \<open>strconv.ParseInt(s, 10, 64)\<close>; a parse failure is \<open>None\<close>;
  \<^item> \<open>readJSON\<close>: \<open>encoding/json\<close> decoding of the body into the handlers'
    \<open>input\<close> struct: a JSON value, or \<open>None\<close> for a body that is not one;
    keys match a field's tag exactly or up to ASCII case (no tag holds a
    letter with a non-ASCII fold), \<open>null\<close> leaves a scalar field alone and
    makes a slice nil, unknown keys are skipped, the last duplicate wins;
  \<^item> \<open>writeJSON\<close>: \<open>json.MarshalIndent\<close> of the envelope, which fails only
    for a \<open>time.Time\<close> whose year is outside \<open>[0, 9999]\<close>.
  It also holds \<open>format_int64\<close>, Go's \<open>%d\<close> of \<open>fmt.Sprintf\<close>, and
  proves that \<open>readIDParam\<close> reads back every id it prints.
  JSON numbers are integers here; a fraction in \<open>module_duration\<close> is a type
  error of the decoder either way.
\<close>

subsection \<open>Decimal integers\<close>

definition digit_char :: "nat \<Rightarrow> char" where
  "digit_char d = char_of (48 + d)"

definition char_digit :: "char \<Rightarrow> nat option" where
  "char_digit c = (let n = (of_char c :: nat) in if 48 \<le> n \<and> n \<le> 57 then Some (n - 48) else None)"

fun dec_string :: "nat \<Rightarrow> string" where
  "dec_string n = (if n < 10 then [digit_char n] else dec_string (n div 10) @ [digit_char (n mod 10)])"

declare dec_string.simps [simp del]

text \<open>\<open>fmt.Sprintf("%d", i)\<close> for an \<open>int64\<close>.\<close>

definition format_int64 :: "int64 \<Rightarrow> string" where
  "format_int64 i =
     (if sint i < 0 then CHR ''-'' # dec_string (nat (- sint i)) else dec_string (nat (sint i)))"

fun digits_value :: "nat \<Rightarrow> string \<Rightarrow> nat option" where
  "digits_value acc [] = Some acc"
| "digits_value acc (c # cs) =
     (case char_digit c of None \<Rightarrow> None | Some d \<Rightarrow> digits_value (10 * acc + d) cs)"

text \<open>\<open>strconv.ParseInt(s, 10, 64)\<close>: an optional sign, then at least one
  decimal digit, and the value in the \<open>int64\<close> range.\<close>

definition parse_unsigned :: "string \<Rightarrow> nat option" where
  "parse_unsigned ds = (if ds = [] then None else digits_value 0 ds)"

definition ParseInt :: "string \<Rightarrow> int64 option" where
  "ParseInt s =
     (case s of
        [] \<Rightarrow> None
      | c # ds \<Rightarrow>
          if c = CHR ''-'' then
            (case parse_unsigned ds of
               None \<Rightarrow> None
             | Some n \<Rightarrow> if n \<le> 2 ^ 63 then Some (word_of_int (- int n)) else None)
          else
            (case parse_unsigned (if c = CHR ''+'' then ds else s) of
               None \<Rightarrow> None
             | Some n \<Rightarrow> if n \<le> 2 ^ 63 - 1 then Some (word_of_int (int n)) else None))"

text \<open>\<open>params.ByName(name)\<close> of httprouter: the first parameter of that name,
  the empty string when there is none.\<close>

definition ByName :: "(string \<times> string) list \<Rightarrow> string \<Rightarrow> string" where
  "ByName ps name = (case map_of ps name of None \<Rightarrow> [] | Some v \<Rightarrow> v)"

definition readIDParam :: "(string \<times> string) list \<Rightarrow> int64 option" where
  "readIDParam ps = ParseInt (ByName ps ''id'')"

subsection \<open>Reading the request body\<close>

datatype json =
    JNull
  | JBool bool
  | JNumber int
  | JString string
  | JArray "json list"
  | JObject "(string \<times> json) list"

datatype json_error = JsonSyntaxError | JsonTypeError string

text \<open>The anonymous \<open>input\<close> struct of the create and update handlers.\<close>

record ModelInput =
  inModuleName :: string
  inModuleDuration :: int32
  inExamType :: "string list option"

definition empty_input :: ModelInput where
  "empty_input = \<lparr>inModuleName = [], inModuleDuration = 0, inExamType = None\<rparr>"

definition lower_ascii :: "char \<Rightarrow> char" where
  "lower_ascii c =
     (let n = (of_char c :: nat) in if 65 \<le> n \<and> n \<le> 90 then char_of (n + 32) else c)"

definition key_matches :: "string \<Rightarrow> string \<Rightarrow> bool" where
  "key_matches tag key \<longleftrightarrow> map lower_ascii key = tag"

fun json_string_elem :: "json \<Rightarrow> string option" where
  "json_string_elem (JString s) = Some s"
| "json_string_elem JNull = Some []"
| "json_string_elem _ = None"

definition decode_field :: "ModelInput \<Rightarrow> string \<Rightarrow> json \<Rightarrow> json_error + ModelInput" where
  "decode_field inp key v =
     (if key_matches ''module_name'' key then
        (case v of
           JString s \<Rightarrow> Inr (inp\<lparr>inModuleName := s\<rparr>)
         | JNull \<Rightarrow> Inr inp
         | _ \<Rightarrow> Inl (JsonTypeError ''module_name''))
      else if key_matches ''module_duration'' key then
        (case v of
           JNumber n \<Rightarrow>
             if in_int32 n then Inr (inp\<lparr>inModuleDuration := word_of_int n\<rparr>)
             else Inl (JsonTypeError ''module_duration'')
         | JNull \<Rightarrow> Inr inp
         | _ \<Rightarrow> Inl (JsonTypeError ''module_duration''))
      else if key_matches ''exam_type'' key then
        (case v of
           JArray xs \<Rightarrow>
             (let ss = map json_string_elem xs
              in if None \<in> set ss then Inl (JsonTypeError ''exam_type'')
                 else Inr (inp\<lparr>inExamType := Some (map the ss)\<rparr>))
         | JNull \<Rightarrow> Inr (inp\<lparr>inExamType := None\<rparr>)
         | _ \<Rightarrow> Inl (JsonTypeError ''exam_type''))
      else Inr inp)"

fun decode_object :: "ModelInput \<Rightarrow> (string \<times> json) list \<Rightarrow> json_error + ModelInput" where
  "decode_object inp [] = Inr inp"
| "decode_object inp ((k, v) # kvs) =
     (case decode_field inp k v of Inl e \<Rightarrow> Inl e | Inr inp' \<Rightarrow> decode_object inp' kvs)"

definition readJSON :: "json option \<Rightarrow> json_error + ModelInput" where
  "readJSON body =
     (case body of
        None \<Rightarrow> Inl JsonSyntaxError
      | Some JNull \<Rightarrow> Inr empty_input
      | Some (JObject kvs) \<Rightarrow> decode_object empty_input kvs
      | Some _ \<Rightarrow> Inl (JsonTypeError []))"

subsection \<open>Writing the response\<close>

text \<open>Seconds from Go's zero time to the first second of year 0 and of year
  10000: the range \<open>Time.MarshalJSON\<close> accepts.\<close>

definition json_time_ok :: "time \<Rightarrow> bool" where
  "json_time_ok t \<longleftrightarrow> - 31622400 \<le> t \<and> t < 315537897600"

text \<open>A response body: a JSON envelope of the helpers, or (\<open>EnvText\<close>)
  text that \<open>net/http\<close> writes itself (\<open>http.Error\<close>, \<open>http.Redirect\<close>).\<close>

datatype envelope =
    EnvModel ModelInfo
  | EnvMessage string
  | EnvError string
  | EnvErrors "(string \<times> string) list"
  | EnvText string

record response =
  status :: nat
  headers :: "(string \<times> string) list"
  body :: envelope

fun marshal_ok :: "envelope \<Rightarrow> bool" where
  "marshal_ok (EnvModel m) \<longleftrightarrow> json_time_ok (CreatedAt m) \<and> json_time_ok (UpdatedAt m)"
| "marshal_ok _ \<longleftrightarrow> True"

definition writeJSON :: "nat \<Rightarrow> envelope \<Rightarrow> (string \<times> string) list \<Rightarrow> response option" where
  "writeJSON st env hs =
     (if marshal_ok env then Some \<lparr>status = st, headers = hs, body = env\<rparr> else None)"

subsection \<open>Error responses\<close>

definition errorResponse :: "nat \<Rightarrow> string \<Rightarrow> response" where
  "errorResponse st message = \<lparr>status = st, headers = [], body = EnvError message\<rparr>"

definition notFoundResponse :: response where
  "notFoundResponse = errorResponse 404 ''the requested resource could not be found''"

definition methodNotAllowedResponse :: "string \<Rightarrow> response" where
  "methodNotAllowedResponse m =
     errorResponse 405 (''the '' @ m @ '' method is not supported for this resource'')"

fun json_error_message :: "json_error \<Rightarrow> string" where
  "json_error_message JsonSyntaxError = ''body contains badly-formed JSON''"
| "json_error_message (JsonTypeError f) = ''body contains incorrect JSON type for field '' @ f"

definition badRequestResponse :: "json_error \<Rightarrow> response" where
  "badRequestResponse e = errorResponse 400 (json_error_message e)"

definition failedValidationResponse :: "(string \<times> string) list \<Rightarrow> response" where
  "failedValidationResponse errs = \<lparr>status = 422, headers = [], body = EnvErrors errs\<rparr>"

definition serverErrorResponse :: response where
  "serverErrorResponse =
     errorResponse 500 ''the server encountered a problem and could not process your request''"

definition editConflictResponse :: response where
  "editConflictResponse =
     errorResponse 409 ''unable to update the record due to an edit conflict, please try again''"

lemma status_responses [simp]:
  "status notFoundResponse = 404"
  "status (methodNotAllowedResponse m) = 405"
  "status (badRequestResponse e) = 400"
  "status (failedValidationResponse errs) = 422"
  "status serverErrorResponse = 500"
  "status editConflictResponse = 409"
  by (simp_all add: notFoundResponse_def methodNotAllowedResponse_def badRequestResponse_def
      failedValidationResponse_def serverErrorResponse_def editConflictResponse_def errorResponse_def)

subsection \<open>Printing and parsing ids\<close>

lemma of_char_digit_char: "d < 10 \<Longrightarrow> of_char (digit_char d) = 48 + d"
  by (simp add: digit_char_def)

lemma char_digit_digit_char [simp]: "d < 10 \<Longrightarrow> char_digit (digit_char d) = Some d"
  by (simp add: char_digit_def of_char_digit_char)

lemma digits_value_append:
  "digits_value acc (xs @ ys) =
     (case digits_value acc xs of None \<Rightarrow> None | Some a \<Rightarrow> digits_value a ys)"
  by (induction acc xs rule: digits_value.induct) (simp_all split: option.splits)

lemma digits_value_dec_string: "digits_value 0 (dec_string n) = Some n"
proof (induction n rule: dec_string.induct)
  case (1 n)
  show ?case
  proof (cases "n < 10")
    case True
    then show ?thesis by (simp add: dec_string.simps)
  next
    case False
    then have "digits_value 0 (dec_string n) =
        digits_value 0 (dec_string (n div 10) @ [digit_char (n mod 10)])"
      by (simp add: dec_string.simps [of n])
    also have "\<dots> = Some (10 * (n div 10) + n mod 10)"
      using "1" False by (simp add: digits_value_append)
    finally show ?thesis by simp
  qed
qed

lemma dec_string_hd: "\<exists>d rest. d < 10 \<and> dec_string n = digit_char d # rest"
proof (induction n rule: dec_string.induct)
  case (1 n)
  then show ?case
    by (cases "n < 10") (auto simp: dec_string.simps [of n])
qed

lemma digit_char_not_sign: "d < 10 \<Longrightarrow> digit_char d \<noteq> CHR ''-'' \<and> digit_char d \<noteq> CHR ''+''"
  using of_char_digit_char [of d] by auto

lemma parse_unsigned_dec_string: "parse_unsigned (dec_string n) = Some n"
  using dec_string_hd [of n] by (auto simp: parse_unsigned_def digits_value_dec_string)

lemma ParseInt_format_int64: "ParseInt (format_int64 w) = Some w"
proof (cases "sint w < 0")
  case True
  have "nat (- sint w) \<le> 2 ^ 63" using sint_range_size [of w] by (simp add: word_size nat_le_iff)
  with True show ?thesis
    by (simp add: format_int64_def ParseInt_def parse_unsigned_dec_string word_of_int_sint)
next
  case False
  obtain d rest where d: "d < 10" "dec_string (nat (sint w)) = digit_char d # rest"
    using dec_string_hd by blast
  have "nat (sint w) \<le> 2 ^ 63 - 1" using sint_range_size [of w] by (simp add: word_size nat_le_iff)
  with False d digit_char_not_sign [OF d(1)] show ?thesis
    using parse_unsigned_dec_string [of "nat (sint w)"]
    by (simp add: format_int64_def ParseInt_def word_of_int_sint)
qed
end
