(* ===== verification/Handlers.thy ===== *)
theory Handlers
  imports Store Helpers
begin

text \<open>
  The request handlers of \<open>src/golang/cmd/api/module.go\<close>.  A handler takes
  the database, the router's path parameters and the decoded body, and
  returns the database after the request and the response it writes.  Every
  early \<open>return\<close> of the Go code is a branch here, in the code's order; the
  update handler is the composition of its two database round trips,
  \<open>update_prepare\<close> (parse the id, \<open>Get\<close>, decode, overwrite the three
  mutable fields, validate) and \<open>update_commit\<close> (\<open>Update\<close>, write), so that
  interleavings of concurrent requests can be stated.
  The healthcheck handler (\<open>cmd/api/healthcheck.go\<close>, not in the repository)
  answers 200, as the specification says.
\<close>

definition location :: "int64 \<Rightarrow> string" where
  "location i = ''v1/movies/'' @ format_int64 i"

definition new_model :: "ModelInput \<Rightarrow> ModelInfo" where
  "new_model input =
     \<lparr>ID = 0, CreatedAt = go_zero_time, UpdatedAt = go_zero_time,
      ModuleName = inModuleName input, ModuleDuration = inModuleDuration input,
      ExamType = inExamType input, Version = 0\<rparr>"

definition createModelHandler :: "database \<Rightarrow> json option \<Rightarrow> database \<times> response" where
  "createModelHandler db reqbody =
     (case readJSON reqbody of
        Inl err \<Rightarrow> (db, badRequestResponse err)
      | Inr input \<Rightarrow>
          (let model = new_model input;
               v = ValidateModel New model
           in if \<not> Valid v then (db, failedValidationResponse (Errors v))
              else
                (case Insert db model of
                   (db', Inl _) \<Rightarrow> (db', serverErrorResponse)
                 | (db', Inr model') \<Rightarrow>
                     (case writeJSON 201 (EnvModel model') [(''Location'', location (ID model'))] of
                        None \<Rightarrow> (db', serverErrorResponse)
                      | Some resp \<Rightarrow> (db', resp)))))"

definition showModelHandler :: "database \<Rightarrow> (string \<times> string) list \<Rightarrow> database \<times> response" where
  "showModelHandler db ps =
     (case readIDParam ps of
        None \<Rightarrow> (db, notFoundResponse)
      | Some i \<Rightarrow>
          (case Get db i of
             Inl e \<Rightarrow> (db, if e = ErrRecordNotFound then notFoundResponse else serverErrorResponse)
           | Inr model \<Rightarrow>
               (case writeJSON 200 (EnvModel model) [] of
                  None \<Rightarrow> (db, serverErrorResponse)
                | Some resp \<Rightarrow> (db, resp))))"

definition update_prepare ::
  "database \<Rightarrow> (string \<times> string) list \<Rightarrow> json option \<Rightarrow> response + ModelInfo" where
  "update_prepare db ps reqbody =
     (case readIDParam ps of
        None \<Rightarrow> Inl notFoundResponse
      | Some i \<Rightarrow>
          (case Get db i of
             Inl e \<Rightarrow> Inl (if e = ErrRecordNotFound then notFoundResponse else serverErrorResponse)
           | Inr model \<Rightarrow>
               (case readJSON reqbody of
                  Inl err \<Rightarrow> Inl (badRequestResponse err)
                | Inr input \<Rightarrow>
                    (let model = model\<lparr>ModuleName := inModuleName input,
                                       ModuleDuration := inModuleDuration input,
                                       ExamType := inExamType input\<rparr>;
                         v = ValidateModel New model
                     in if \<not> Valid v then Inl (failedValidationResponse (Errors v))
                        else Inr model))))"

definition update_commit :: "database \<Rightarrow> ModelInfo \<Rightarrow> database \<times> response" where
  "update_commit db model =
     (case Update db model of
        (db', Inl e) \<Rightarrow>
          (db', if e = ErrEditConflict then editConflictResponse else serverErrorResponse)
      | (db', Inr model') \<Rightarrow>
          (case writeJSON 200 (EnvModel model') [] of
             None \<Rightarrow> (db', serverErrorResponse)
           | Some resp \<Rightarrow> (db', resp)))"

definition updateModelHandler ::
  "database \<Rightarrow> (string \<times> string) list \<Rightarrow> json option \<Rightarrow> database \<times> response" where
  "updateModelHandler db ps reqbody =
     (case update_prepare db ps reqbody of
        Inl resp \<Rightarrow> (db, resp)
      | Inr model \<Rightarrow> update_commit db model)"

definition deleteModelHandler :: "database \<Rightarrow> (string \<times> string) list \<Rightarrow> database \<times> response" where
  "deleteModelHandler db ps =
     (case readIDParam ps of
        None \<Rightarrow> (db, notFoundResponse)
      | Some i \<Rightarrow>
          (case Delete db i of
             (db', Inl e) \<Rightarrow>
               (db', if e = ErrRecordNotFound then notFoundResponse else serverErrorResponse)
           | (db', Inr _) \<Rightarrow>
               (case writeJSON 200 (EnvMessage ''model succesfully deleted'') [] of
                  None \<Rightarrow> (db', serverErrorResponse)
                | Some resp \<Rightarrow> (db', resp))))"

definition healthcheckHandler :: "database \<Rightarrow> database \<times> response" where
  "healthcheckHandler db = (db, \<lparr>status = 200, headers = [], body = EnvMessage ''available''\<rparr>)"

subsection \<open>Behaviour of the handlers\<close>

text \<open>The status the show handler answers with, on every branch.\<close>

lemma showModelHandler_eq:
  "showModelHandler db ps =
     (db, case readIDParam ps of
            None \<Rightarrow> notFoundResponse
          | Some i \<Rightarrow>
              if sint i < 1 then notFoundResponse
              else if \<not> online db then serverErrorResponse
              else case rows db (sint i) of
                     None \<Rightarrow> notFoundResponse
                   | Some _ \<Rightarrow> serverErrorResponse)"
  by (simp add: showModelHandler_def Get_eq split: option.splits)

lemma update_prepare_eq:
  "update_prepare db ps reqbody =
     Inl (case readIDParam ps of
            None \<Rightarrow> notFoundResponse
          | Some i \<Rightarrow>
              if sint i < 1 then notFoundResponse
              else if \<not> online db then serverErrorResponse
              else case rows db (sint i) of
                     None \<Rightarrow> notFoundResponse
                   | Some _ \<Rightarrow> serverErrorResponse)"
  by (simp add: update_prepare_def Get_eq split: option.splits)

lemma updateModelHandler_eq:
  "updateModelHandler db ps reqbody = (db, projl (update_prepare db ps reqbody))"
  by (simp add: updateModelHandler_def update_prepare_eq)

lemma update_commit_eq: "update_commit db model = (db, serverErrorResponse)"
  by (cases "online db") (simp_all add: update_commit_def Update_def)

text \<open>Go's zero time marshals, so a freshly created record always encodes.\<close>

lemma json_time_ok_zero [simp]: "json_time_ok go_zero_time"
  by (simp add: json_time_ok_def go_zero_time_def)

text \<open>The database a handler leaves behind is the one its store call leaves.\<close>

lemma createModelHandler_db:
  "fst (createModelHandler db reqbody) =
     (case readJSON reqbody of
        Inl _ \<Rightarrow> db
      | Inr input \<Rightarrow>
          if model_valid (new_model input) then fst (Insert db (new_model input)) else db)"
  by (auto simp: createModelHandler_def Let_def Valid_ValidateModel_iff prod.case_eq_if
      split: sum.split option.split)

lemma deleteModelHandler_db:
  "fst (deleteModelHandler db ps) =
     (case readIDParam ps of None \<Rightarrow> db | Some i \<Rightarrow> fst (Delete db i))"
  by (auto simp: deleteModelHandler_def prod.case_eq_if split: sum.split option.split)

end
