(* ===== verification/System.thy ===== *)
theory System
  imports Handlers
begin

text \<open>
  The running service: requests are handled concurrently, each handler's
  round trips to the database are atomic, and nothing else is shared.
  \<open>api_request\<close> names the five routes of \<open>cmd/api/routers.go\<close> with what
  the router hands the handler (path parameters, body); \<open>handle\<close> runs the
  handler.  \<open>sys_step\<close> interleaves requests: a single-round-trip request
  runs in one step, the update request in two (its prepare phase, which
  leaves a pending record, and its commit), and the environment may take the
  database off line or back.  The lemmas show that every step keeps the table
  invariant \<open>db_inv\<close> and the stronger facts of the code as written: no
  update request ever gets past its \<open>Get\<close>, so no row's version ever moves
  from 1; and every row stored in a reachable state meets the
  specification's record constraints (\<open>rows_valid\<close>), because the create
  handler inserts only validated records.
\<close>

datatype api_request =
    Healthcheck
  | CreateModel "json option"
  | ShowModel "(string \<times> string) list"
  | UpdateModel "(string \<times> string) list" "json option"
  | DeleteModel "(string \<times> string) list"

fun handle :: "database \<Rightarrow> api_request \<Rightarrow> database \<times> response" where
  "handle db Healthcheck = healthcheckHandler db"
| "handle db (CreateModel b) = createModelHandler db b"
| "handle db (ShowModel ps) = showModelHandler db ps"
| "handle db (UpdateModel ps b) = updateModelHandler db ps b"
| "handle db (DeleteModel ps) = deleteModelHandler db ps"

record sys =
  store :: database
  pending :: "ModelInfo list"

definition init_sys :: sys where
  "init_sys = \<lparr>store = empty_database, pending = []\<rparr>"

inductive sys_step :: "sys \<Rightarrow> sys \<Rightarrow> bool" where
  single: "\<not> (\<exists>ps b. r = UpdateModel ps b) \<Longrightarrow>
     sys_step s (s\<lparr>store := fst (handle (store s) r)\<rparr>)"
| prepare_fails: "update_prepare (store s) ps b = Inl resp \<Longrightarrow> sys_step s s"
| prepare: "update_prepare (store s) ps b = Inr m \<Longrightarrow>
     sys_step s (s\<lparr>pending := m # pending s\<rparr>)"
| commit: "m \<in> set (pending s) \<Longrightarrow>
     sys_step s (s\<lparr>store := fst (update_commit (store s) m), pending := remove1 m (pending s)\<rparr>)"
| connectivity: "sys_step s (s\<lparr>store := (store s)\<lparr>online := up\<rparr>\<rparr>)"

inductive_cases sys_stepE: "sys_step s t"

inductive reachable :: "sys \<Rightarrow> bool" where
  start: "reachable init_sys"
| step: "reachable s \<Longrightarrow> sys_step s t \<Longrightarrow> reachable t"

subsection \<open>Invariants\<close>

text \<open>Every row of the table has version 1.\<close>

definition versions_initial :: "database \<Rightarrow> bool" where
  "versions_initial db \<longleftrightarrow> (\<forall>k r. rows db k = Some r \<longrightarrow> col_version r = 1)"

definition sys_inv :: "sys \<Rightarrow> bool" where
  "sys_inv s \<longleftrightarrow> db_inv (store s) \<and> versions_initial (store s) \<and> pending s = []"

text \<open>A stored row meets the specification's record constraints: a name of
  1 to 500 characters, a positive duration, 1 to 5 distinct exam types.\<close>

definition row_valid :: "row \<Rightarrow> bool" where
  "row_valid r \<longleftrightarrow>
     col_module_name r \<noteq> [] \<and> length (col_module_name r) \<le> 500 \<and> 0 < col_module_duration r \<and>
     (case col_exam_type r of
        None \<Rightarrow> False
      | Some xs \<Rightarrow> 1 \<le> length xs \<and> length xs \<le> 5 \<and> distinct xs)"

definition rows_valid :: "database \<Rightarrow> bool" where
  "rows_valid db \<longleftrightarrow> (\<forall>k r. rows db k = Some r \<longrightarrow> row_valid r)"

lemma update_prepare_never_Inr: "update_prepare db ps b \<noteq> Inr m"
  by (simp add: update_prepare_eq)

lemma handle_db_inv: "db_inv db \<Longrightarrow> db_inv (fst (handle db r))"
  by (cases r)
     (simp_all add: healthcheckHandler_def createModelHandler_db Insert_inv
       showModelHandler_eq updateModelHandler_eq deleteModelHandler_db Delete_inv
       split: sum.split option.split)

lemma Insert_versions_initial:
  "db_inv db \<Longrightarrow> versions_initial db \<Longrightarrow> versions_initial (fst (Insert db m))"
  by (simp add: Insert_eq versions_initial_def inserted_row_def)

lemma Delete_versions_initial:
  "versions_initial db \<Longrightarrow> versions_initial (fst (Delete db i))"
  by (simp add: Delete_eq versions_initial_def split: option.splits)

lemma handle_versions_initial:
  "db_inv db \<Longrightarrow> versions_initial db \<Longrightarrow> versions_initial (fst (handle db r))"
  by (cases r)
     (simp_all add: healthcheckHandler_def createModelHandler_db Insert_versions_initial
       showModelHandler_eq updateModelHandler_eq deleteModelHandler_db Delete_versions_initial
       split: sum.split option.split)

lemma sys_inv_init: "sys_inv init_sys"
  by (simp add: sys_inv_def init_sys_def versions_initial_def)

lemma sys_step_inv: "sys_step s t \<Longrightarrow> sys_inv s \<Longrightarrow> sys_inv t"
proof (induction rule: sys_step.induct)
  case (single r s)
  then show ?case by (simp add: sys_inv_def handle_db_inv handle_versions_initial)
next
  case (prepare_fails s ps b resp)
  then show ?case by simp
next
  case (prepare s ps b m)
  then show ?case by (simp add: update_prepare_never_Inr)
next
  case (commit m s)
  then show ?case by (simp add: sys_inv_def)
next
  case (connectivity s up)
  then show ?case by (simp add: sys_inv_def versions_initial_def)
qed

lemma reachable_sys_inv: "reachable s \<Longrightarrow> sys_inv s"
  by (induction rule: reachable.induct) (auto intro: sys_inv_init sys_step_inv)

subsection \<open>Only valid records are stored\<close>

lemma row_valid_inserted_row: "model_valid m \<Longrightarrow> row_valid (inserted_row m)"
  by (auto simp: model_valid_def row_valid_def inserted_row_def)

lemma Insert_rows_valid:
  "db_inv db \<Longrightarrow> model_valid m \<Longrightarrow> rows_valid db \<Longrightarrow> rows_valid (fst (Insert db m))"
  by (simp add: Insert_eq rows_valid_def row_valid_inserted_row)

lemma Delete_rows_valid: "rows_valid db \<Longrightarrow> rows_valid (fst (Delete db i))"
  by (simp add: Delete_eq rows_valid_def split: option.splits)

lemma handle_rows_valid:
  "db_inv db \<Longrightarrow> rows_valid db \<Longrightarrow> rows_valid (fst (handle db r))"
  by (cases r)
     (simp_all add: healthcheckHandler_def createModelHandler_db Insert_rows_valid
       showModelHandler_eq updateModelHandler_eq deleteModelHandler_db Delete_rows_valid
       split: sum.split option.split)

lemma reachable_rows_valid_store: "reachable s \<Longrightarrow> rows_valid (store s)"
proof (induction rule: reachable.induct)
  case start
  then show ?case by (simp add: init_sys_def rows_valid_def)
next
  case (step s t)
  have inv: "sys_inv s" using reachable_sys_inv [OF step.hyps(1)] .
  from step.hyps(2) show ?case
  proof (cases rule: sys_step.cases)
    case (single r)
    then show ?thesis using inv step.IH by (simp add: sys_inv_def handle_rows_valid)
  next
    case (commit m)
    then show ?thesis using inv by (simp add: sys_inv_def)
  qed (use step.IH in \<open>simp_all add: rows_valid_def\<close>)
qed

end
