(* ===== verification/Path.thy ===== *)
theory Path
  imports Prelude
begin

text \<open>
  URL paths as the router and \<open>net/http\<close> treat them: splitting at \<open>/\<close>,
  joining with a separator (Go's \<open>strings.Join\<close>), httprouter's
  \<open>CleanPath\<close> (which removes empty, \<open>.\<close> and \<open>..\<close> elements and keeps a
  trailing slash), and the cleaning \<open>http.Redirect\<close> applies to a redirect
  target (\<open>path.Clean\<close>, trailing slash preserved).  Neither library is in
  the repository; the element-wise definitions follow their documented
  behaviour and the byte loops' cases (an element is empty, \<open>.\<close>, \<open>..\<close> or
  real).  The lemmas give the round trip of splitting and joining and show
  that a path of plain elements is its own clean form.  \<open>resolve_path\<close>
  is how a client reads a relative \<open>Location\<close> header.
\<close>

fun split_on :: "char \<Rightarrow> string \<Rightarrow> string list" where
  "split_on c [] = [[]]"
| "split_on c (x # xs) =
     (if x = c then [] # split_on c xs
      else (let r = split_on c xs in (x # hd r) # tl r))"

text \<open>\<open>strings.Join(elems, sep)\<close>.\<close>

fun join :: "string \<Rightarrow> string list \<Rightarrow> string" where
  "join sep [] = []"
| "join sep [x] = x"
| "join sep (x # y # ys) = x @ sep @ join sep (y # ys)"

text \<open>One element of \<open>CleanPath\<close>'s loop on the stack of kept elements
  (most recent first): an empty element or \<open>.\<close> is dropped, \<open>..\<close> removes the
  last kept element if there is one, any other element is kept.\<close>

definition clean_step :: "string list \<Rightarrow> string \<Rightarrow> string list" where
  "clean_step st e =
     (if e = [] \<or> e = ''.'' then st else if e = ''..'' then drop 1 st else e # st)"

definition path_elems :: "string \<Rightarrow> string list" where
  "path_elems p = split_on CHR ''/'' (if p \<noteq> [] \<and> hd p = CHR ''/'' then tl p else p)"

definition clean_elems :: "string \<Rightarrow> string list" where
  "clean_elems p = rev (foldl clean_step [] (path_elems p))"

text \<open>httprouter's \<open>CleanPath\<close>: rooted, and the trailing slash kept, also
  when the path ends in a \<open>.\<close> element.\<close>

definition CleanPath :: "string \<Rightarrow> string" where
  "CleanPath p =
     (if p = [] then ''/''
      else
        (let es = clean_elems p;
             trailing = (1 < length p \<and> last p = CHR ''/'') \<or> last (path_elems p) = ''.''
         in if es = [] then ''/'' else ''/'' @ join ''/'' es @ (if trailing then ''/'' else [])))"

text \<open>The target \<open>http.Redirect\<close> writes into \<open>Location\<close> for a rooted URL
  path: \<open>path.Clean\<close>, then the trailing slash restored.\<close>

definition redirect_target :: "string \<Rightarrow> string" where
  "redirect_target u =
     (let c = ''/'' @ join ''/'' (clean_elems u)
      in if u \<noteq> [] \<and> last u = CHR ''/'' \<and> last c \<noteq> CHR ''/'' then c @ ''/'' else c)"

text \<open>A plain element: what survives cleaning unchanged.\<close>

definition plain_elem :: "string \<Rightarrow> bool" where
  "plain_elem e \<longleftrightarrow> e \<noteq> [] \<and> e \<noteq> ''.'' \<and> e \<noteq> ''..'' \<and> CHR ''/'' \<notin> set e"

text \<open>How a client resolves the path of a \<open>Location\<close> header against the
  path of the request it answered (RFC 3986, section 5.2): a rooted path
  replaces the base path; any other path replaces the base's last element
  (the merge of section 5.2.3).  Dot segments are not removed: the header
  of the program holds none.\<close>

definition resolve_path :: "string \<Rightarrow> string \<Rightarrow> string" where
  "resolve_path base ref =
     (if ref \<noteq> [] \<and> hd ref = CHR ''/'' then ref
      else rev (dropWhile (\<lambda>c. c \<noteq> CHR ''/'') (rev base)) @ ref)"

subsection \<open>Splitting and joining\<close>

lemma split_on_not_Nil [simp]: "split_on c xs \<noteq> []"
  by (induction xs) (auto simp: Let_def)

lemma join_split_on: "join [c] (split_on c s) = s"
proof (induction s)
  case Nil
  then show ?case by simp
next
  case (Cons x xs)
  obtain y ys where r: "split_on c xs = y # ys"
    using split_on_not_Nil by (cases "split_on c xs") auto
  show ?case
  proof (cases "x = c")
    case True
    then show ?thesis using Cons r by (simp add:)
  next
    case False
    then show ?thesis using Cons r by (cases ys) (simp_all add:)
  qed
qed

lemma split_on_append_sep:
  "c \<notin> set x \<Longrightarrow> split_on c (x @ c # s) = x # split_on c s"
  by (induction x) (auto simp: Let_def)

lemma split_on_no_sep: "c \<notin> set x \<Longrightarrow> split_on c x = [x]"
  by (induction x) (auto simp: Let_def)

lemma split_on_join:
  "\<forall>e\<in>set es. c \<notin> set e \<Longrightarrow> es \<noteq> [] \<Longrightarrow> split_on c (join [c] es) = es"
proof (induction es rule: induct_list012)
  case (3 x y zs)
  then show ?case by (simp add: split_on_append_sep)
qed (simp_all add: split_on_no_sep)

subsection \<open>Clean paths\<close>

lemma foldl_clean_step_plain:
  "\<forall>e\<in>set es. plain_elem e \<Longrightarrow> foldl clean_step st es = rev es @ st"
  by (induction es arbitrary: st) (simp_all add: clean_step_def plain_elem_def)

lemma clean_elems_plain:
  assumes "\<forall>e\<in>set es. plain_elem e" "es \<noteq> []"
  shows "path_elems (''/'' @ join ''/'' es) = es" "clean_elems (''/'' @ join ''/'' es) = es"
proof -
  have "\<forall>e\<in>set es. CHR ''/'' \<notin> set e" using assms(1) by (simp add: plain_elem_def)
  then show p: "path_elems (''/'' @ join ''/'' es) = es"
    using assms(2) by (simp add: path_elems_def split_on_join)
  have "clean_elems (''/'' @ join ''/'' es) = rev (foldl clean_step [] es)"
    by (simp only: clean_elems_def p)
  then show "clean_elems (''/'' @ join ''/'' es) = es"
    using assms(1) by (simp add: foldl_clean_step_plain)
qed

lemma join_snoc: "join sep (xs @ [x]) = (if xs = [] then x else join sep xs @ sep @ x)"
  by (induction sep xs rule: join.induct) auto

lemma last_join_plain_not_slash:
  assumes "\<forall>e\<in>set es. plain_elem e" "es \<noteq> []"
  shows "last (join sep es) \<noteq> CHR ''/''"
proof -
  obtain xs x where es: "es = xs @ [x]" using assms(2) by (cases es rule: rev_cases) auto
  then have "plain_elem x" using assms(1) by simp
  then have "x \<noteq> []" "last x \<noteq> CHR ''/''"
    using last_in_set [of x] by (fastforce simp: plain_elem_def)+
  then show ?thesis by (simp add: es join_snoc)
qed

text \<open>A rooted path of plain elements without a trailing slash is its own
  clean form, for the router and for \<open>http.Redirect\<close>.\<close>

lemma CleanPath_plain:
  "\<forall>e\<in>set es. plain_elem e \<Longrightarrow> es \<noteq> [] \<Longrightarrow> CleanPath (''/'' @ join ''/'' es) = ''/'' @ join ''/'' es"
  using clean_elems_plain [of es] last_join_plain_not_slash [of es "''/''"] last_in_set [of es]
  by (auto simp: CleanPath_def Let_def plain_elem_def)

lemma redirect_target_plain:
  "\<forall>e\<in>set es. plain_elem e \<Longrightarrow> es \<noteq> [] \<Longrightarrow>
     redirect_target (''/'' @ join ''/'' es) = ''/'' @ join ''/'' es"
  using clean_elems_plain [of es] last_join_plain_not_slash [of es "''/''"]
  by (simp add: redirect_target_def Let_def)

end
