(* ===== verification/Router.thy ===== *)
theory Router
  imports System Path "HOL-Library.Multiset" "HOL-Library.AList" "HOL-Library.List_Lexorder" "HOL-Library.Char_ord"
begin

text \<open>
  The router of \<open>src/golang/cmd/api/routers.go\<close>: \<open>routes()\<close> builds an
  httprouter \<open>Router\<close> with the two fixed error handlers and five routes.
  httprouter (v1.3, not in the repository) is modelled from its
  documentation and the cases of \<open>Handle\<close>, \<open>ServeHTTP\<close> and \<open>allowed\<close>:
  \<^item> a pattern is a list of path elements, each static or a named parameter
    \<open>:name\<close> matching one non-empty element; registering a pattern panics when
    the path does not begin with \<open>/\<close>, when the method already has it, or
    when it puts a parameter and a static element (or two parameters of
    different names) at the same position after a common prefix;
  \<^item> the handler of a route is what \<open>HandlerFunc\<close> adapts: from the path
    parameters and the body it builds the request \<open>handle\<close> runs;
  \<^item> \<open>ServeHTTP\<close>: the method's tree is searched for the path; failing that,
    a trailing-slash redirect (the path with the slash toggled has a route),
    then a fixed-path redirect (\<open>CleanPath\<close>, then a case-insensitive match,
    ASCII letters folded), with 301 for \<open>GET\<close> and 307 otherwise; then the
    automatic \<open>OPTIONS\<close> answer, the 405 answer with an \<open>Allow\<close> header, and
    the 404 answer;
  \<^item> \<open>allowed\<close> collects the other methods whose tree has the path, in the
    iteration order of Go's map of trees (a parameter here), appends
    \<open>OPTIONS\<close> and sorts the list with an in-place insertion sort.
  Redirect targets are written without URL escaping (a path of ASCII
  characters that need none).
\<close>

datatype segment = Static string | Param string

definition parse_segment :: "string \<Rightarrow> segment" where
  "parse_segment e = (if e \<noteq> [] \<and> hd e = CHR '':'' then Param (tl e) else Static e)"

definition parse_pattern :: "string \<Rightarrow> segment list" where
  "parse_pattern p = map parse_segment (split_on CHR ''/'' (tl p))"

type_synonym handler = "(string \<times> string) list \<Rightarrow> json option \<Rightarrow> api_request"

type_synonym route = "segment list \<times> handler"

datatype router_panic =
    PathMustBeginWithSlash string
  | HandleAlreadyRegistered string
  | WildcardConflict string

record router =
  trees :: "(string \<times> route list) list"
  RedirectTrailingSlash :: bool
  RedirectFixedPath :: bool
  HandleMethodNotAllowed :: bool
  HandleOPTIONS :: bool
  NotFound :: "response option"
  MethodNotAllowed :: "(string \<Rightarrow> response) option"

text \<open>\<open>httprouter.New()\<close>.\<close>

definition httprouter_New :: router where
  "httprouter_New =
     \<lparr>trees = [], RedirectTrailingSlash = True, RedirectFixedPath = True,
      HandleMethodNotAllowed = True, HandleOPTIONS = True, NotFound = None,
      MethodNotAllowed = None\<rparr>"

definition tree_of :: "router \<Rightarrow> string \<Rightarrow> route list" where
  "tree_of r m = (case map_of (trees r) m of None \<Rightarrow> [] | Some rs \<Rightarrow> rs)"

text \<open>Two patterns of one method that the tree cannot hold together.\<close>

fun seg_conflict :: "segment list \<Rightarrow> segment list \<Rightarrow> bool" where
  "seg_conflict (Static a # xs) (Static b # ys) \<longleftrightarrow> a = b \<and> seg_conflict xs ys"
| "seg_conflict (Param a # xs) (Param b # ys) \<longleftrightarrow> a \<noteq> b \<or> seg_conflict xs ys"
| "seg_conflict (Param a # xs) (Static b # ys) \<longleftrightarrow> True"
| "seg_conflict (Static a # xs) (Param b # ys) \<longleftrightarrow> True"
| "seg_conflict _ _ \<longleftrightarrow> False"

text \<open>\<open>Router.Handle\<close> (and so \<open>HandlerFunc\<close>): a panic is \<open>Inl\<close>.\<close>

definition Handle :: "router \<Rightarrow> string \<Rightarrow> string \<Rightarrow> handler \<Rightarrow> router_panic + router" where
  "Handle r m p h =
     (if p = [] \<or> hd p \<noteq> CHR ''/'' then Inl (PathMustBeginWithSlash p)
      else
        (let pat = parse_pattern p; rs = tree_of r m
         in if pat \<in> set (map fst rs) then Inl (HandleAlreadyRegistered p)
            else if list_ex (\<lambda>q. seg_conflict q pat) (map fst rs) then Inl (WildcardConflict p)
            else Inr (r\<lparr>trees := AList.update m (rs @ [(pat, h)]) (trees r)\<rparr>)))"

definition HandlerFunc :: "router \<Rightarrow> string \<Rightarrow> string \<Rightarrow> handler \<Rightarrow> router_panic + router" where
  "HandlerFunc r m p h = Handle r m p h"

definition and_then :: "router_panic + router \<Rightarrow> (router \<Rightarrow> router_panic + router) \<Rightarrow> router_panic + router" where
  "and_then x f = (case x of Inl e \<Rightarrow> Inl e | Inr r \<Rightarrow> f r)"

text \<open>\<open>routes()\<close>, in the code's order.\<close>

definition routes :: "router_panic + router" where
  "routes =
     (let router = httprouter_New\<lparr>NotFound := Some notFoundResponse,
                                  MethodNotAllowed := Some methodNotAllowedResponse\<rparr>
      in and_then (HandlerFunc router ''GET'' ''/v1/healthcheck'' (\<lambda>ps b. Healthcheck)) (\<lambda>router.
         and_then (HandlerFunc router ''POST'' ''/v1/movies'' (\<lambda>ps b. CreateModel b)) (\<lambda>router.
         and_then (HandlerFunc router ''GET'' ''/v1/movies/:id'' (\<lambda>ps b. ShowModel ps)) (\<lambda>router.
         and_then (HandlerFunc router ''PATCH'' ''/v1/movies/:id'' (\<lambda>ps b. UpdateModel ps b)) (\<lambda>router.
         HandlerFunc router ''DELETE'' ''/v1/movies/:id'' (\<lambda>ps b. DeleteModel ps))))))"

subsection \<open>Looking up a path\<close>

record http_request =
  req_method :: string
  req_path :: string
  req_body :: "json option"

fun match_segments :: "segment list \<Rightarrow> string list \<Rightarrow> (string \<times> string) list option" where
  "match_segments [] [] = Some []"
| "match_segments (Static s # ps) (e # es) = (if s = e then match_segments ps es else None)"
| "match_segments (Param n # ps) (e # es) =
     (if e = [] then None else map_option (Cons (n, e)) (match_segments ps es))"
| "match_segments _ _ = None"

definition request_elems :: "string \<Rightarrow> string list option" where
  "request_elems p = (if p \<noteq> [] \<and> hd p = CHR ''/'' then Some (split_on CHR ''/'' (tl p)) else None)"

fun get_value :: "route list \<Rightarrow> string list \<Rightarrow> (handler \<times> (string \<times> string) list) option" where
  "get_value [] es = None"
| "get_value ((pat, h) # rs) es =
     (case match_segments pat es of Some ps \<Rightarrow> Some (h, ps) | None \<Rightarrow> get_value rs es)"

definition lookup_path :: "route list \<Rightarrow> string \<Rightarrow> (handler \<times> (string \<times> string) list) option" where
  "lookup_path rs p = (case request_elems p of None \<Rightarrow> None | Some es \<Rightarrow> get_value rs es)"

definition toggle_slash :: "string \<Rightarrow> string" where
  "toggle_slash p = (if 1 < length p \<and> last p = CHR ''/'' then butlast p else p @ ''/'')"

text \<open>The trailing-slash recommendation: a route exists for the path with
  the trailing slash removed or added.\<close>

definition tsr :: "route list \<Rightarrow> string \<Rightarrow> bool" where
  "tsr rs p \<longleftrightarrow> lookup_path rs (toggle_slash p) \<noteq> None"

fun ci_match :: "segment list \<Rightarrow> string list \<Rightarrow> string list option" where
  "ci_match [] [] = Some []"
| "ci_match (Static s # ps) (e # es) =
     (if map lower_ascii s = map lower_ascii e then map_option (Cons s) (ci_match ps es) else None)"
| "ci_match (Param n # ps) (e # es) =
     (if e = [] then None else map_option (Cons e) (ci_match ps es))"
| "ci_match _ _ = None"

fun ci_lookup :: "route list \<Rightarrow> string list \<Rightarrow> string list option" where
  "ci_lookup [] es = None"
| "ci_lookup ((pat, h) # rs) es = (case ci_match pat es of Some fs \<Rightarrow> Some fs | None \<Rightarrow> ci_lookup rs es)"

definition ci_path :: "route list \<Rightarrow> string \<Rightarrow> string option" where
  "ci_path rs p =
     (case request_elems p of
        None \<Rightarrow> None
      | Some es \<Rightarrow> map_option (\<lambda>fs. ''/'' @ join ''/'' fs) (ci_lookup rs es))"

definition findCaseInsensitivePath :: "route list \<Rightarrow> string \<Rightarrow> bool \<Rightarrow> string option" where
  "findCaseInsensitivePath rs p fixTrailingSlash =
     (case ci_path rs p of
        Some fp \<Rightarrow> Some fp
      | None \<Rightarrow> if fixTrailingSlash then ci_path rs (toggle_slash p) else None)"

subsection \<open>The allowed methods\<close>

text \<open>The insertion sort of \<open>allowed\<close>:
  \<open>for i, l := 1, len(allowed); i < l; i++ {
     for j := i; j > 0 && allowed[j] < allowed[j-1]; j-- { swap } }\<close>.\<close>

fun sort_inner :: "'a::linorder list \<Rightarrow> nat \<Rightarrow> 'a list" where
  "sort_inner a j =
     (if 0 < j \<and> a ! j < a ! (j - 1) then sort_inner (a[j := a ! (j - 1), j - 1 := a ! j]) (j - 1)
      else a)"

function sort_outer :: "'a::linorder list \<Rightarrow> nat \<Rightarrow> nat \<Rightarrow> 'a list" where
  "sort_outer a i l = (if i < l then sort_outer (sort_inner a i) (i + 1) l else a)"
  by pat_completeness auto
termination by (relation "measure (\<lambda>(a, i, l). l - i)") auto

declare sort_inner.simps [simp del] sort_outer.simps [simp del]

definition sort_allowed :: "'a::linorder list \<Rightarrow> 'a list" where
  "sort_allowed a = sort_outer a 1 (length a)"

text \<open>\<open>r.allowed(path, reqMethod)\<close>; \<open>order\<close> is the order in which Go's
  map of trees happens to be iterated.\<close>

definition allowed :: "router \<Rightarrow> string list \<Rightarrow> string \<Rightarrow> string \<Rightarrow> string" where
  "allowed r order p reqMethod =
     (let ms = (if p = ''*'' then filter (\<lambda>m. m \<noteq> ''OPTIONS'') order
                else filter (\<lambda>m. m \<noteq> reqMethod \<and> m \<noteq> ''OPTIONS'' \<and> lookup_path (tree_of r m) p \<noteq> None) order)
      in if ms = [] then [] else join '', '' (sort_allowed (ms @ [''OPTIONS''])))"

subsection \<open>Serving a request\<close>

definition status_text :: "nat \<Rightarrow> string" where
  "status_text code =
     (if code = 301 then ''Moved Permanently'' else if code = 307 then ''Temporary Redirect'' else [])"

fun html_escape :: "string \<Rightarrow> string" where
  "html_escape [] = []"
| "html_escape (c # cs) =
     (if c = CHR ''&'' then ''&amp;'' else if c = CHR 0x27 then ''&#39;''
      else if c = CHR ''<'' then ''&lt;'' else if c = CHR ''>'' then ''&gt;''
      else if c = CHR 0x22 then ''&#34;'' else [c]) @ html_escape cs"

text \<open>\<open>http.Redirect(w, req, url, code)\<close> for a rooted path: the cleaned
  target in \<open>Location\<close>, an HTML link as the body of a \<open>GET\<close>.\<close>

definition redirect_response :: "nat \<Rightarrow> string \<Rightarrow> string \<Rightarrow> response" where
  "redirect_response code url m =
     (let u = redirect_target url
      in \<lparr>status = code,
          headers = (''Location'', u) #
            (if m = ''GET'' \<or> m = ''HEAD'' then [(''Content-Type'', ''text/html; charset=utf-8'')] else []),
          body = EnvText (if m = ''GET''
                          then ''<a href='' @ [CHR 0x22] @ html_escape u @ [CHR 0x22] @ ''>'' @
                               status_text code @ ''</a>.'' @ [CHR 0x0A, CHR 0x0A]
                          else [])\<rparr>)"

definition options_response :: "string \<Rightarrow> response" where
  "options_response allow = \<lparr>status = 200, headers = [(''Allow'', allow)], body = EnvText []\<rparr>"

definition not_found :: "router \<Rightarrow> response" where
  "not_found r =
     (case NotFound r of
        Some resp \<Rightarrow> resp
      | None \<Rightarrow> \<lparr>status = 404, headers = [], body = EnvText (''404 page not found'' @ [CHR 0x0A])\<rparr>)"

definition method_not_allowed :: "router \<Rightarrow> string \<Rightarrow> string \<Rightarrow> response" where
  "method_not_allowed r m allow =
     (case MethodNotAllowed r of
        Some h \<Rightarrow> (h m)\<lparr>headers := (''Allow'', allow) # headers (h m)\<rparr>
      | None \<Rightarrow> \<lparr>status = 405, headers = [(''Allow'', allow)],
                 body = EnvText (''Method Not Allowed'' @ [CHR 0x0A])\<rparr>)"

text \<open>The end of \<open>ServeHTTP\<close> that every unmatched request reaches.\<close>

definition serve_unmatched :: "router \<Rightarrow> http_request \<Rightarrow> response" where
  "serve_unmatched r req =
     (let m = req_method req; p = req_path req; order = map fst (trees r)
      in if m = ''OPTIONS'' \<and> HandleOPTIONS r then
           (let allow = allowed r order p ''OPTIONS''
            in if allow \<noteq> [] then options_response allow else not_found r)
         else if HandleMethodNotAllowed r then
           (let allow = allowed r order p m
            in if allow \<noteq> [] then method_not_allowed r m allow else not_found r)
         else not_found r)"

definition ServeHTTP :: "router \<Rightarrow> database \<Rightarrow> http_request \<Rightarrow> database \<times> response" where
  "ServeHTTP r db req =
     (let m = req_method req; p = req_path req
      in case map_of (trees r) m of
           None \<Rightarrow> (db, serve_unmatched r req)
         | Some root \<Rightarrow>
             (case lookup_path root p of
                Some (h, ps) \<Rightarrow> handle db (h ps (req_body req))
              | None \<Rightarrow>
                  if m \<noteq> ''CONNECT'' \<and> p \<noteq> ''/'' then
                    (let code = (if m = ''GET'' then 301 else 307)
                     in if tsr root p \<and> RedirectTrailingSlash r then
                          (db, redirect_response code (toggle_slash p) m)
                        else if RedirectFixedPath r then
                          (case findCaseInsensitivePath root (CleanPath p) (RedirectTrailingSlash r) of
                             Some fp \<Rightarrow> (db, redirect_response code fp m)
                           | None \<Rightarrow> (db, serve_unmatched r req))
                        else (db, serve_unmatched r req))
                  else (db, serve_unmatched r req)))"

subsection \<open>The specification's router\<close>

text \<open>Section 4.4 and the endpoint table of the specification: a method and
  an exact path, with one \<open>:id\<close> element, name a request; \<open>spec_methods\<close>
  are the methods a path has, \<open>spec_allow\<close> the \<open>Allow\<close> list of them.
  \<open>app_trees\<close> is the table \<open>routes()\<close> builds.\<close>

definition id_path :: "string \<Rightarrow> string option" where
  "id_path p =
     (let s = drop 11 p
      in if take 11 p = ''/v1/movies/'' \<and> s \<noteq> [] \<and> CHR ''/'' \<notin> set s then Some s else None)"

definition spec_route :: "string \<Rightarrow> string \<Rightarrow> json option \<Rightarrow> api_request option" where
  "spec_route m p b =
     (if p = ''/v1/healthcheck'' then (if m = ''GET'' then Some Healthcheck else None)
      else if p = ''/v1/movies'' then (if m = ''POST'' then Some (CreateModel b) else None)
      else
        (case id_path p of
           None \<Rightarrow> None
         | Some s \<Rightarrow>
             if m = ''GET'' then Some (ShowModel [(''id'', s)])
             else if m = ''PATCH'' then Some (UpdateModel [(''id'', s)] b)
             else if m = ''DELETE'' then Some (DeleteModel [(''id'', s)])
             else None))"

definition spec_methods :: "string \<Rightarrow> string list" where
  "spec_methods p = filter (\<lambda>m. spec_route m p None \<noteq> None) [''GET'', ''POST'', ''PATCH'', ''DELETE'']"

definition spec_allow :: "string \<Rightarrow> string" where
  "spec_allow p = (if spec_methods p = [] then [] else join '', '' (sort (spec_methods p @ [''OPTIONS''])))"

definition app_trees :: "(string \<times> route list) list" where
  "app_trees =
     [(''GET'', [([Static ''v1'', Static ''healthcheck''], \<lambda>ps b. Healthcheck),
                ([Static ''v1'', Static ''movies'', Param ''id''], \<lambda>ps b. ShowModel ps)]),
      (''POST'', [([Static ''v1'', Static ''movies''], \<lambda>ps b. CreateModel b)]),
      (''PATCH'', [([Static ''v1'', Static ''movies'', Param ''id''], \<lambda>ps b. UpdateModel ps b)]),
      (''DELETE'', [([Static ''v1'', Static ''movies'', Param ''id''], \<lambda>ps b. DeleteModel ps)])]"

definition app_router :: router where
  "app_router =
     httprouter_New\<lparr>NotFound := Some notFoundResponse,
       MethodNotAllowed := Some methodNotAllowedResponse, trees := app_trees\<rparr>"

subsection \<open>The sort of the allowed methods\<close>

lemma insort_snoc_ge: "x \<le> y \<Longrightarrow> insort x (ys @ [y]) = insort x ys @ [y]"
  by (induction ys) auto

lemma sort_inner_insort:
  "j < length a \<Longrightarrow> sorted (take j a) \<Longrightarrow> sort_inner a j = insort (a ! j) (take j a) @ drop (Suc j) a"
proof (induction a j rule: sort_inner.induct)
  case (1 a j)
  show ?case
  proof (cases "0 < j \<and> a ! j < a ! (j - 1)")
    case True
    let ?a' = "a[j := a ! (j - 1), j - 1 := a ! j]"
    have j: "j - 1 < length a" "Suc (j - 1) = j" using True "1.prems" by auto
    have tk: "take (j - 1) ?a' = take (j - 1) a" by simp
    have nth: "?a' ! (j - 1) = a ! j" using j by simp
    have dr: "drop j ?a' = a ! (j - 1) # drop (Suc j) a"
      using j "1.prems"(1) by (metis Cons_nth_drop_Suc drop_update_cancel length_list_update lessI nth_list_update_eq nth_list_update_neq)
    have tj: "take j a = take (j - 1) a @ [a ! (j - 1)]"
      using j by (metis take_Suc_conv_app_nth)
    have st: "sorted (take (j - 1) a)" using "1.prems"(2) tj by (simp add: sorted_append)
    have "sort_inner a j = sort_inner ?a' (j - 1)"
      by (subst sort_inner.simps) (simp only: if_P [OF True])
    also have "\<dots> = insort (a ! j) (take (j - 1) a) @ a ! (j - 1) # drop (Suc j) a"
      using "1.IH" [OF True] j st tk nth dr by simp
    also have "\<dots> = insort (a ! j) (take j a) @ drop (Suc j) a"
    proof -
      have "a ! j \<le> a ! (j - 1)" using True by (simp add: order_less_imp_le)
      then show ?thesis using tj insort_snoc_ge [of "a ! j" "a ! (j - 1)" "take (j - 1) a"] by simp
    qed
    finally show ?thesis .
  next
    case False
    then have eq: "sort_inner a j = a"
      by (subst sort_inner.simps) (simp only: if_not_P [OF False] if_False)
    show ?thesis
    proof (cases "j = 0")
      case True
      then show ?thesis using eq "1.prems" by (cases a) auto
    next
      case nz: False
      have tj: "take j a = take (j - 1) a @ [a ! (j - 1)]"
        using nz "1.prems" by (metis Suc_pred' bot_nat_0.not_eq_extremum less_imp_diff_less take_Suc_conv_app_nth)
      have "\<forall>x\<in>set (take j a). x \<le> a ! j"
        using "1.prems"(2) False nz tj by (auto simp: sorted_append)
      then have "insort (a ! j) (take j a) = take j a @ [a ! j]"
        using "1.prems"(2) by (simp add: sorted_insort_is_snoc)
      then show ?thesis using eq "1.prems"(1) by (simp add: Cons_nth_drop_Suc)
    qed
  qed
qed

lemma mset_sort_inner_step:
  assumes "j < length a"
  shows "mset (insort (a ! j) (take j a) @ drop (Suc j) a) = mset a"
proof -
  have e: "mset a = mset (take j a @ a ! j # drop (Suc j) a)"
    using assms by (metis id_take_nth_drop)
  show ?thesis by (subst e) simp
qed

lemma sort_outer_props:
  "l = length a \<Longrightarrow> sorted (take i a) \<Longrightarrow>
     mset (sort_outer a i l) = mset a \<and> sorted (sort_outer a i l)"
proof (induction a i l rule: sort_outer.induct)
  case (1 a i l)
  show ?case
  proof (cases "i < l")
    case True
    let ?b = "insort (a ! i) (take i a) @ drop (Suc i) a"
    have b: "sort_inner a i = ?b" using True "1.prems" by (simp add: sort_inner_insort)
    have m: "mset ?b = mset a" using mset_sort_inner_step [of i a] True "1.prems"(1) by simp
    have len: "length ?b = length a" using m by (metis size_mset)
    have t: "take (i + 1) ?b = insort (a ! i) (take i a)"
      using True "1.prems"(1) by (simp add: length_insort min_def)
    have "sorted (take (i + 1) ?b)" unfolding t using "1.prems"(2) by (simp add: sorted_insort)
    then have "mset (sort_outer ?b (i + 1) l) = mset ?b \<and> sorted (sort_outer ?b (i + 1) l)"
      using "1.IH" [OF True] b len "1.prems"(1) by simp
    moreover have "sort_outer a i l = sort_outer (sort_inner a i) (i + 1) l"
      by (subst sort_outer.simps) (simp only: if_P [OF True])
    ultimately show ?thesis using b m by simp
  next
    case False
    have "sort_outer a i l = a"
      by (subst sort_outer.simps) (simp only: if_not_P [OF False] if_False)
    then show ?thesis using False "1.prems" by simp
  qed
qed

lemma sort_allowed_sort: "sort_allowed a = sort a"
proof -
  have "sorted (take 1 a)" by (cases a) simp_all
  then have "mset (sort_outer a 1 (length a)) = mset a \<and> sorted (sort_outer a 1 (length a))"
    using sort_outer_props [of "length a" a 1] by simp
  then show ?thesis unfolding sort_allowed_def by (metis properties_for_sort)
qed

subsection \<open>The router of the program\<close>

text \<open>\<open>routes()\<close> registers its five routes without a panic.\<close>

lemma routes_eq: "routes = Inr app_router"
  by (simp add: routes_def HandlerFunc_def Handle_def and_then_def parse_pattern_def
      parse_segment_def tree_of_def httprouter_New_def Let_def app_trees_def app_router_def)

lemma match_segments_Nil: "match_segments [] es = (if es = [] then Some [] else None)"
  by (cases es) simp_all

lemma match_two:
  "match_segments [Static a, Static b] es =
     (case es of [x, y] \<Rightarrow> if x = a \<and> y = b then Some [] else None | _ \<Rightarrow> None)"
  by (auto split: list.split)

lemma match_id:
  "match_segments [Static a, Static b, Param n] es =
     (case es of [x, y, s] \<Rightarrow> if x = a \<and> y = b \<and> s \<noteq> [] then Some [(n, s)] else None | _ \<Rightarrow> None)"
  by (auto split: list.split)

lemma split_on_sep_free: "e \<in> set (split_on c s) \<Longrightarrow> c \<notin> set e"
proof (induction s arbitrary: e)
  case (Cons x xs)
  obtain y ys where r: "split_on c xs = y # ys"
    using split_on_not_Nil by (cases "split_on c xs") auto
  then show ?case using Cons.prems Cons.IH [of y] Cons.IH [of e] by (auto simp: Let_def split: if_splits)
qed simp

lemma request_elems_Some:
  "request_elems p = Some es \<longleftrightarrow>
     p = CHR ''/'' # join ''/'' es \<and> es \<noteq> [] \<and> (\<forall>e\<in>set es. CHR ''/'' \<notin> set e)"
proof
  assume "request_elems p = Some es"
  then obtain r where p: "p = CHR ''/'' # r" and es: "es = split_on CHR ''/'' r"
    by (cases p) (auto simp: request_elems_def split: if_splits)
  then show "p = CHR ''/'' # join ''/'' es \<and> es \<noteq> [] \<and> (\<forall>e\<in>set es. CHR ''/'' \<notin> set e)"
    using join_split_on [of "CHR ''/''" r] split_on_sep_free [of _ "CHR ''/''" r] by auto
next
  assume "p = CHR ''/'' # join ''/'' es \<and> es \<noteq> [] \<and> (\<forall>e\<in>set es. CHR ''/'' \<notin> set e)"
  then show "request_elems p = Some es"
    using split_on_join [of es "CHR ''/''"] by (simp add: request_elems_def)
qed

lemma id_path_Some:
  "id_path p = Some s \<longleftrightarrow> p = ''/v1/movies/'' @ s \<and> s \<noteq> [] \<and> CHR ''/'' \<notin> set s"
proof
  assume h: "id_path p = Some s"
  then have t: "take 11 p = ''/v1/movies/''" and d: "drop 11 p = s" "s \<noteq> []" "CHR ''/'' \<notin> set s"
    by (auto simp: id_path_def Let_def split: if_splits)
  have "p = take 11 p @ drop 11 p" by simp
  then show "p = ''/v1/movies/'' @ s \<and> s \<noteq> [] \<and> CHR ''/'' \<notin> set s"
    using t d by simp
qed (simp add: id_path_def)

lemma app_tree_of:
  assumes "routes = Inr rt"
  shows "tree_of rt m = (case map_of app_trees m of None \<Rightarrow> [] | Some rs \<Rightarrow> rs)"
proof -
  have "rt = app_router" using assms by (simp add: routes_eq)
  then show ?thesis by (simp add: tree_of_def app_router_def)
qed

lemma spec_route_cases:
  assumes "spec_route m p b = Some rq"
  obtains "p = ''/v1/healthcheck''" "m = ''GET''" "rq = Healthcheck"
  | "p = ''/v1/movies''" "m = ''POST''" "rq = CreateModel b"
  | s where "p = ''/v1/movies/'' @ s" "s \<noteq> []" "CHR ''/'' \<notin> set s"
      "m = ''GET'' \<and> rq = ShowModel [(''id'', s)] \<or> m = ''PATCH'' \<and> rq = UpdateModel [(''id'', s)] b \<or>
       m = ''DELETE'' \<and> rq = DeleteModel [(''id'', s)]"
  using assms by (auto simp: spec_route_def id_path_Some split: if_splits option.splits)

lemma spec_route_lookup:
  assumes "routes = Inr rt" "spec_route m p b = Some rq"
  shows "map_option (\<lambda>(h, ps). h ps b) (lookup_path (tree_of rt m) p) = Some rq"
  using assms(2)
proof (cases rule: spec_route_cases)
  case (3 s)
  then have "request_elems p = Some [''v1'', ''movies'', s]"
    by (simp add: request_elems_def split_on_no_sep)
  then show ?thesis
    using 3(2,4) assms(1) by (auto simp: app_tree_of app_trees_def lookup_path_def)
qed (use assms(1) in \<open>simp_all add: app_tree_of app_trees_def lookup_path_def request_elems_def\<close>)

lemma spec_route_id:
  assumes "id_path p = Some s"
  shows "spec_route m p b =
     (if m = ''GET'' then Some (ShowModel [(''id'', s)])
      else if m = ''PATCH'' then Some (UpdateModel [(''id'', s)] b)
      else if m = ''DELETE'' then Some (DeleteModel [(''id'', s)]) else None)"
proof -
  have "p = ''/v1/movies/'' @ s" "s \<noteq> []" using assms by (simp_all add: id_path_Some)
  then have "p \<noteq> ''/v1/healthcheck''" "p \<noteq> ''/v1/movies''" by auto
  then show ?thesis using assms by (simp add: spec_route_def)
qed

lemma get_value_app:
  assumes "routes = Inr rt" "get_value (tree_of rt m) es = Some (h, ps)"
  obtains "es = [''v1'', ''healthcheck'']" "m = ''GET''" "h ps b = Healthcheck"
  | "es = [''v1'', ''movies'']" "m = ''POST''" "h ps b = CreateModel b"
  | s where "es = [''v1'', ''movies'', s]" "s \<noteq> []"
      "m = ''GET'' \<and> h ps b = ShowModel [(''id'', s)] \<or>
       m = ''PATCH'' \<and> h ps b = UpdateModel [(''id'', s)] b \<or>
       m = ''DELETE'' \<and> h ps b = DeleteModel [(''id'', s)]"
  using assms
  by (auto simp: app_tree_of app_trees_def match_two match_id match_segments_Nil split: if_splits list.splits option.splits)

lemma lookup_spec_route:
  assumes "routes = Inr rt" "lookup_path (tree_of rt m) p = Some (h, ps)"
  shows "spec_route m p b = Some (h ps b)"
proof -
  obtain es where es: "request_elems p = Some es" "get_value (tree_of rt m) es = Some (h, ps)"
    using assms(2) by (auto simp: lookup_path_def split: option.splits)
  have p: "p = CHR ''/'' # join ''/'' es" "\<forall>e\<in>set es. CHR ''/'' \<notin> set e"
    using es(1) by (simp_all add: request_elems_Some)
  from assms(1) es(2) show ?thesis
  proof (cases rule: get_value_app [where b = b])
    case 1
    then have "p = ''/v1/healthcheck''" using p by simp
    then show ?thesis using 1 by (simp add: spec_route_def)
  next
    case 2
    then have "p = ''/v1/movies''" using p by simp
    then show ?thesis using 2 by (simp add: spec_route_def)
  next
    case (3 s)
    then have "id_path p = Some s" using p by (simp add: id_path_Some)
    then show ?thesis using 3(3) by (auto simp: spec_route_id)
  qed
qed

lemma app_lookup:
  assumes "routes = Inr rt"
  shows "map_option (\<lambda>(h, ps). h ps b) (lookup_path (tree_of rt m) p) = spec_route m p b"
proof (cases "lookup_path (tree_of rt m) p")
  case None
  then show ?thesis using spec_route_lookup [OF assms, of m p b] by (cases "spec_route m p b") auto
next
  case (Some x)
  then show ?thesis using lookup_spec_route [OF assms, of m p "fst x" "snd x" b] by (cases x) auto
qed

lemma app_trees_eq: "routes = Inr rt \<Longrightarrow> trees rt = app_trees"
  by (auto simp: routes_eq app_router_def)

lemma spec_route_None_iff: "spec_route m p b = None \<longleftrightarrow> spec_route m p b' = None"
  by (simp add: spec_route_def split: option.splits)

lemma app_lookup_None:
  "routes = Inr rt \<Longrightarrow> lookup_path (tree_of rt m) p = None \<longleftrightarrow> spec_route m p b = None"
  by (metis app_lookup option.map_disc_iff)

lemma allowed_app:
  assumes "routes = Inr rt" "p \<noteq> ''*''" "spec_route m p b = None"
  shows "allowed rt (map fst (trees rt)) p m = spec_allow p"
proof -
  have "filter (\<lambda>m'. m' \<noteq> m \<and> m' \<noteq> ''OPTIONS'' \<and> lookup_path (tree_of rt m') p \<noteq> None)
          [''GET'', ''POST'', ''PATCH'', ''DELETE''] = spec_methods p"
    unfolding spec_methods_def
  proof (rule filter_cong)
    fix m' assume "m' \<in> set [''GET'', ''POST'', ''PATCH'', ''DELETE'']"
    then show "(m' \<noteq> m \<and> m' \<noteq> ''OPTIONS'' \<and> lookup_path (tree_of rt m') p \<noteq> None) =
               (spec_route m' p None \<noteq> None)"
      using app_lookup_None [OF assms(1), of m' p None] assms(3) spec_route_None_iff [of m p b None]
      by auto
  qed simp
  then show ?thesis
    using assms(1,2) by (simp add: allowed_def app_trees_eq app_trees_def spec_allow_def sort_allowed_sort)
qed

lemma ServeHTTP_no_tree:
  "map_of (trees r) (req_method req) = None \<Longrightarrow> ServeHTTP r db req = (db, serve_unmatched r req)"
  by (simp add: ServeHTTP_def)

lemma ServeHTTP_matched:
  "map_of (trees r) (req_method req) = Some root \<Longrightarrow> lookup_path root (req_path req) = Some (h, ps) \<Longrightarrow>
     ServeHTTP r db req = handle db (h ps (req_body req))"
  by (simp add: ServeHTTP_def)

lemma spec_route_methods: "spec_route m p b \<noteq> None \<Longrightarrow> m \<in> set [''GET'', ''POST'', ''PATCH'', ''DELETE'']"
  by (auto simp: spec_route_def split: if_splits option.splits)

lemma ci_match_Nil: "ci_match [] es = (if es = [] then Some [] else None)"
  by (cases es) simp_all

lemma ci_two:
  "ci_match [Static a, Static b] es =
     (case es of [x, y] \<Rightarrow> if map lower_ascii a = map lower_ascii x \<and> map lower_ascii b = map lower_ascii y
                          then Some [a, b] else None | _ \<Rightarrow> None)"
  by (auto split: list.split)

lemma ci_id:
  "ci_match [Static a, Static b, Param n] es =
     (case es of [x, y, s] \<Rightarrow> if map lower_ascii a = map lower_ascii x \<and> map lower_ascii b = map lower_ascii y \<and> s \<noteq> []
                             then Some [a, b, s] else None | _ \<Rightarrow> None)"
  by (auto split: list.split)

lemma ci_lookup_app:
  assumes "routes = Inr rt" "ci_lookup (tree_of rt m) es = Some fs"
  obtains x y where "es = [x, y]" "map lower_ascii x = ''v1''" "map lower_ascii y = ''healthcheck''" "m = ''GET''"
  | x y where "es = [x, y]" "map lower_ascii x = ''v1''" "map lower_ascii y = ''movies''" "m = ''POST''"
  | x y s where "es = [x, y, s]" "map lower_ascii x = ''v1''" "map lower_ascii y = ''movies''" "s \<noteq> []"
      "m = ''GET'' \<or> m = ''PATCH'' \<or> m = ''DELETE''"
  using assms
  by (auto simp: app_tree_of app_trees_def ci_two ci_id ci_match_Nil lower_ascii_def
      split: if_splits list.splits option.splits)

lemma spec_route_shape:
  assumes "spec_route m p b \<noteq> None"
  obtains "p = ''/v1/healthcheck''" | "p = ''/v1/movies''"
  | s where "p = ''/v1/movies/'' @ s" "s \<noteq> []" "CHR ''/'' \<notin> set s"
  using assms by (auto simp: spec_route_def id_path_Some split: if_splits option.splits)

lemma spec_route_slash:
  assumes "spec_route m p b \<noteq> None"
  shows "spec_route m' (p @ ''/'') b' = None"
proof -
  have "id_path (p @ ''/'') = None"
    using assms by (cases rule: spec_route_shape) (auto simp: id_path_def Let_def)
  moreover have "p @ ''/'' \<noteq> ''/v1/healthcheck'' \<and> p @ ''/'' \<noteq> ''/v1/movies''"
    using assms by (cases rule: spec_route_shape) auto
  ultimately show ?thesis by (simp add: spec_route_def)
qed

lemma toggle_slash_spec:
  assumes "spec_route m p b \<noteq> None"
  shows "toggle_slash p = p @ ''/'' \<and> toggle_slash (p @ ''/'') = p"
  using assms
proof (cases rule: spec_route_shape)
  case (3 s)
  have "last s \<in> set s" using 3(2) by simp
  then have "last s \<noteq> CHR ''/''" using 3(3) by metis
  then show ?thesis using 3 by (auto simp: toggle_slash_def)
qed (auto simp: toggle_slash_def)

lemma spec_route_GET_hc: "spec_route m ''/v1/healthcheck'' b = (if m = ''GET'' then Some Healthcheck else None)"
  by (simp add: spec_route_def)

lemma spec_route_POST_mv: "spec_route m ''/v1/movies'' b = (if m = ''POST'' then Some (CreateModel b) else None)"
  by (simp add: spec_route_def)

lemma ci_lookup_app_None:
  assumes "routes = Inr rt"
    "\<And>x y. es = [x, y] \<Longrightarrow> map lower_ascii x = ''v1'' \<Longrightarrow>
       (map lower_ascii y = ''healthcheck'' \<and> m = ''GET'') \<or> (map lower_ascii y = ''movies'' \<and> m = ''POST'') \<Longrightarrow> False"
    "\<And>x y s. es = [x, y, s] \<Longrightarrow> map lower_ascii x = ''v1'' \<Longrightarrow> map lower_ascii y = ''movies'' \<Longrightarrow>
       s \<noteq> [] \<Longrightarrow> m = ''GET'' \<or> m = ''PATCH'' \<or> m = ''DELETE'' \<Longrightarrow> False"
  shows "ci_lookup (tree_of rt m) es = None"
proof (cases "ci_lookup (tree_of rt m) es")
  case (Some fs)
  from assms(1) Some show ?thesis
  proof (cases rule: ci_lookup_app)
    case (1 x y)
    then show ?thesis using assms(2) [of x y] by simp
  next
    case (2 x y)
    then show ?thesis using assms(2) [of x y] by simp
  next
    case (3 x y s)
    then show ?thesis using assms(3) [of x y s] by simp
  qed
qed

lemma ci_lookup_hc:
  "routes = Inr rt \<Longrightarrow> m \<noteq> ''GET'' \<Longrightarrow>
     ci_lookup (tree_of rt m) [''v1'', ''healthcheck''] = None \<and>
     ci_lookup (tree_of rt m) [''v1'', ''healthcheck'', []] = None"
  by (auto intro!: ci_lookup_app_None simp: lower_ascii_def)

lemma ci_lookup_mv:
  "routes = Inr rt \<Longrightarrow> m \<noteq> ''POST'' \<Longrightarrow>
     ci_lookup (tree_of rt m) [''v1'', ''movies''] = None \<and>
     ci_lookup (tree_of rt m) [''v1'', ''movies'', []] = None"
  by (auto intro!: ci_lookup_app_None simp: lower_ascii_def)

lemma ci_lookup_id:
  "routes = Inr rt \<Longrightarrow> m \<noteq> ''GET'' \<Longrightarrow> m \<noteq> ''PATCH'' \<Longrightarrow> m \<noteq> ''DELETE'' \<Longrightarrow>
     ci_lookup (tree_of rt m) [''v1'', ''movies'', s] = None \<and>
     ci_lookup (tree_of rt m) [''v1'', ''movies'', s, []] = None"
  by (auto intro!: ci_lookup_app_None)

lemma ci_path_spec_None:
  assumes "routes = Inr rt" "spec_route m' p b \<noteq> None" "spec_route m p b = None"
  shows "ci_path (tree_of rt m) p = None \<and> ci_path (tree_of rt m) (p @ ''/'') = None"
  using assms(2)
proof (cases rule: spec_route_shape)
  case 1
  then have "m \<noteq> ''GET''" using assms(3) by (simp add: spec_route_GET_hc split: if_splits)
  then show ?thesis
    using 1 ci_lookup_hc [OF assms(1)] by (simp add: ci_path_def request_elems_def)
next
  case 2
  then have "m \<noteq> ''POST''" using assms(3) by (simp add: spec_route_POST_mv split: if_splits)
  then show ?thesis
    using 2 ci_lookup_mv [OF assms(1)] by (simp add: ci_path_def request_elems_def)
next
  case (3 s)
  then have "id_path p = Some s" by (simp add: id_path_Some)
  then have "m \<noteq> ''GET'' \<and> m \<noteq> ''PATCH'' \<and> m \<noteq> ''DELETE''"
    using assms(3) by (auto simp: spec_route_id split: if_splits)
  then show ?thesis
    using 3 ci_lookup_id [OF assms(1), of m s]
    by (simp add: ci_path_def request_elems_def split_on_no_sep split_on_append_sep)
qed

lemma app_router_fields:
  "routes = Inr rt \<Longrightarrow>
     HandleOPTIONS rt \<and> HandleMethodNotAllowed rt \<and> RedirectTrailingSlash rt \<and> RedirectFixedPath rt \<and>
     NotFound rt = Some notFoundResponse \<and> MethodNotAllowed rt = Some methodNotAllowedResponse"
  by (auto simp: routes_eq app_router_def httprouter_New_def)

lemma app_map_of:
  "routes = Inr rt \<Longrightarrow>
     map_of (trees rt) m = (if m \<in> set [''GET'', ''POST'', ''PATCH'', ''DELETE''] then Some (tree_of rt m) else None)"
  by (auto simp: app_trees_eq app_trees_def tree_of_def)

lemma join_not_Nil: "xs \<noteq> [] \<Longrightarrow> [] \<notin> set xs \<Longrightarrow> join sep xs \<noteq> []"
  by (induction sep xs rule: join.induct) auto

lemma spec_allow_Nil_iff: "spec_allow p = [] \<longleftrightarrow> spec_methods p = []"
proof -
  have "[] \<notin> set (sort (spec_methods p @ [''OPTIONS'']))" by (auto simp: spec_methods_def)
  moreover have "sort (spec_methods p @ [''OPTIONS'']) \<noteq> []" by (metis Nil_is_append_conv length_0_conv length_sort not_Cons_self2)
  ultimately show ?thesis using join_not_Nil by (auto simp: spec_allow_def)
qed

lemma filter_not_Nil_ex: "filter P xs \<noteq> [] \<Longrightarrow> \<exists>x. P x"
  by (induction xs) (auto split: if_splits)

lemma spec_methods_ex:
  assumes "spec_methods p \<noteq> []"
  obtains m where "spec_route m p b \<noteq> None"
proof -
  have "filter (\<lambda>m. spec_route m p None \<noteq> None) [''GET'', ''POST'', ''PATCH'', ''DELETE''] \<noteq> []"
    using assms unfolding spec_methods_def by assumption
  then obtain m where "spec_route m p None \<noteq> None" using filter_not_Nil_ex by blast
  then show ?thesis using that spec_route_None_iff [of m p None b] by metis
qed

lemma spec_route_not_star:
  assumes "spec_route m p b \<noteq> None"
  shows "p \<noteq> ''*'' \<and> p \<noteq> ''/'' \<and> p \<noteq> []"
  using assms by (cases rule: spec_route_shape) auto

lemma CleanPath_spec:
  assumes "spec_route m p b \<noteq> None" "p \<noteq> ''/v1/movies/.''" "p \<noteq> ''/v1/movies/..''"
  shows "CleanPath p = p"
  using assms(1)
proof (cases rule: spec_route_shape)
  case 1
  then show ?thesis using CleanPath_plain [of "[''v1'', ''healthcheck'']"] by (simp add: plain_elem_def)
next
  case 2
  then show ?thesis using CleanPath_plain [of "[''v1'', ''movies'']"] by (simp add: plain_elem_def)
next
  case (3 s)
  then have "plain_elem s" using assms(2,3) by (auto simp: plain_elem_def)
  then show ?thesis using 3 CleanPath_plain [of "[''v1'', ''movies'', s]"] by (simp add: plain_elem_def)
qed

lemma sort_mset_eq: "mset xs = mset ys \<Longrightarrow> sort xs = sort ys"
  by (metis properties_for_sort mset_sort sorted_sort)

lemma headers_methodNotAllowedResponse [simp]: "headers (methodNotAllowedResponse m) = []"
  by (simp add: methodNotAllowedResponse_def errorResponse_def)

lemma no_redirect_spec_path:
  assumes "routes = Inr rt" "spec_route m' p b \<noteq> None" "spec_route m p b = None"
    "p \<noteq> ''/v1/movies/.''" "p \<noteq> ''/v1/movies/..''"
  shows "lookup_path (tree_of rt m) p = None \<and> \<not> tsr (tree_of rt m) p \<and>
         findCaseInsensitivePath (tree_of rt m) (CleanPath p) True = None"
proof -
  have "lookup_path (tree_of rt m) (p @ ''/'') = None"
    using app_lookup_None [OF assms(1)] spec_route_slash [OF assms(2)] by blast
  then show ?thesis
    using app_lookup_None [OF assms(1), of m p b] assms(3) toggle_slash_spec [OF assms(2)]
      CleanPath_spec [OF assms(2,4,5)] ci_path_spec_None [OF assms(1-3)]
    by (simp add: tsr_def findCaseInsensitivePath_def)
qed

lemma allowed_iteration_order:
  assumes "mset order = mset (map fst (trees r))"
  shows "allowed r order p m = allowed r (map fst (trees r)) p m"
proof -
  have f: "mset (filter P order) = mset (filter P (map fst (trees r)))" for P
    using assms by simp
  then have "filter P order = [] \<longleftrightarrow> filter P (map fst (trees r)) = []" for P
    by (metis mset_zero_iff)
  moreover have "sort (filter P order @ [''OPTIONS'']) = sort (filter P (map fst (trees r)) @ [''OPTIONS''])" for P
    using f [of P] by (intro sort_mset_eq) simp
  ultimately show ?thesis by (simp add: allowed_def Let_def sort_allowed_sort)
qed

end
