(* ===== verification/Service.thy ===== *)
theory Service
  imports Router
begin

text \<open>
  The service as an HTTP server sees it: the router \<open>routes()\<close> builds
  answers requests one after another against one database
  (\<open>serve_seq\<close>; each request is handled synchronously, and the database is
  the only state the requests share).  The lemmas classify every answer of
  \<open>ServeHTTP\<close> (a handler's, a redirect, or the router's own), give the
  statuses each kind of answer can have, and follow the \<open>Location\<close> header
  of a created record the way a client resolves it: to a path one element
  too deep, which the router answers 404.
\<close>

text \<open>The connection loop of \<open>net/http\<close>'s server with \<open>routes()\<close> as its
  handler: each request is served against the database the previous one
  left, and answered in order.\<close>

fun serve_seq :: "router \<Rightarrow> database \<Rightarrow> http_request list \<Rightarrow> database \<times> response list" where
  "serve_seq r db [] = (db, [])"
| "serve_seq r db (q # qs) =
     (let (db', resp) = ServeHTTP r db q;
          (db'', resps) = serve_seq r db' qs
      in (db'', resp # resps))"

subsection \<open>The answers of the router\<close>

lemma writeJSON_status: "writeJSON st env hs = Some resp \<Longrightarrow> status resp = st"
  by (auto simp: writeJSON_def split: if_splits)

lemma handle_status:
  "status (snd (handle db rq)) \<in> {200, 201, 400, 404, 422, 500}"
proof (cases rq)
  case (CreateModel b)
  then show ?thesis
    by (auto simp: createModelHandler_def Let_def prod.case_eq_if dest: writeJSON_status
        split: sum.split option.split)
next
  case (DeleteModel ps)
  then show ?thesis
    by (auto simp: deleteModelHandler_def prod.case_eq_if dest: writeJSON_status
        split: sum.split option.split)
qed (simp_all add: healthcheckHandler_def showModelHandler_eq updateModelHandler_eq
       update_prepare_eq split: option.split)

text \<open>Every answer of \<open>ServeHTTP\<close> is a handler's, a redirect with 301 or
  307 that leaves the database alone, or the router's own.\<close>

lemma ServeHTTP_answer:
  obtains (handler) rq where "ServeHTTP r db req = handle db rq"
  | (redirect) code u where "ServeHTTP r db req = (db, redirect_response code u (req_method req))"
      "code \<in> {301, 307}"
  | (unmatched) "ServeHTTP r db req = (db, serve_unmatched r req)"
proof (cases "map_of (trees r) (req_method req)")
  case None
  then show ?thesis using unmatched by (simp add: ServeHTTP_def)
next
  case (Some root)
  show ?thesis
  proof (cases "lookup_path root (req_path req)")
    case (Some x)
    then show ?thesis using \<open>map_of (trees r) (req_method req) = Some root\<close> handler
      by (cases x) (simp add: ServeHTTP_def)
  next
    case None
    then have "ServeHTTP r db req = (db, serve_unmatched r req) \<or>
        (\<exists>code u. ServeHTTP r db req = (db, redirect_response code u (req_method req)) \<and>
                  code \<in> {301, 307})"
      using \<open>map_of (trees r) (req_method req) = Some root\<close>
      by (auto simp: ServeHTTP_def Let_def split: option.split)
    then show ?thesis using redirect unmatched by blast
  qed
qed

lemma status_redirect_response [simp]: "status (redirect_response code u m) = code"
  by (simp add: redirect_response_def Let_def)

lemma serve_unmatched_status:
  assumes "routes = Inr rt"
  shows "status (serve_unmatched rt req) \<in> {200, 404, 405}"
proof -
  have f: "NotFound rt = Some notFoundResponse" "MethodNotAllowed rt = Some methodNotAllowedResponse"
    using app_router_fields [OF assms] by simp_all
  then show ?thesis
    by (simp add: serve_unmatched_def Let_def options_response_def not_found_def
        method_not_allowed_def)
qed

text \<open>The statuses the program's router answers with.\<close>

lemma ServeHTTP_status_app:
  assumes "routes = Inr rt"
  shows "status (snd (ServeHTTP rt db req)) \<in> {200, 201, 301, 307, 400, 404, 405, 422, 500}"
proof (cases rule: ServeHTTP_answer [of rt db req])
  case (handler rq)
  then show ?thesis using handle_status [of db rq] by auto
next
  case (redirect code u)
  then show ?thesis by auto
next
  case unmatched
  then show ?thesis using serve_unmatched_status [OF assms, of req] by auto
qed

subsection \<open>Serving a sequence of requests\<close>

lemma serve_seq_Cons:
  "serve_seq r db (q # qs) =
     (fst (serve_seq r (fst (ServeHTTP r db q)) qs),
      snd (ServeHTTP r db q) # snd (serve_seq r (fst (ServeHTTP r db q)) qs))"
  by (simp add: prod.case_eq_if Let_def)

declare serve_seq.simps(2) [simp del] serve_seq_Cons [simp]

subsection \<open>The \<open>Location\<close> header as a client reads it\<close>

lemma digit_char_not_sep:
  assumes "d < 10"
  shows "digit_char d \<noteq> CHR ''/'' \<and> digit_char d \<noteq> CHR ''.''"
proof -
  have "of_char (digit_char d) = (48 + d :: nat)" using assms by (simp add: digit_char_def of_char_of)
  then show ?thesis by auto
qed

lemma set_dec_string: "c \<in> set (dec_string n) \<Longrightarrow> \<exists>d<10. c = digit_char d"
proof (induction n rule: dec_string.induct)
  case (1 n)
  show ?case
  proof (cases "n < 10")
    case True
    then show ?thesis using "1.prems" by (subst (asm) dec_string.simps) auto
  next
    case False
    then have "c \<in> set (dec_string (n div 10)) \<or> c = digit_char (n mod 10)"
      using "1.prems" by (subst (asm) dec_string.simps) auto
    then show ?thesis using "1.IH" False by (metis mod_less_divisor zero_less_numeral)
  qed
qed

lemma format_int64_plain: "plain_elem (format_int64 i)"
proof -
  have "CHR ''/'' \<notin> set (dec_string n) \<and> CHR ''.'' \<notin> set (dec_string n)" for n
    using set_dec_string digit_char_not_sep by metis
  moreover have "dec_string n \<noteq> []" for n using dec_string_hd [of n] by auto
  ultimately have h: "CHR ''/'' \<notin> set (format_int64 i)" "CHR ''.'' \<notin> set (format_int64 i)"
    "format_int64 i \<noteq> []"
    by (auto simp: format_int64_def)
  then have "format_int64 i \<noteq> ''.''" "format_int64 i \<noteq> ''..''" by auto
  then show ?thesis using h by (simp add: plain_elem_def)
qed

lemma location_resolved: "resolve_path ''/v1/movies'' (location i) = ''/v1/v1/movies/'' @ format_int64 i"
  by (simp add: resolve_path_def location_def)

text \<open>A path one element too deep for every route of the table is answered
  404 by the router, whatever the method: no route, no redirect.\<close>

lemma ServeHTTP_deep_path:
  assumes "routes = Inr rt" "plain_elem s"
  shows "ServeHTTP rt db \<lparr>req_method = m, req_path = ''/v1/v1/movies/'' @ s, req_body = b\<rparr> =
     (db, notFoundResponse)"
proof -
  define p where "p = ''/v1/v1/movies/'' @ s"
  let ?req = "\<lparr>req_method = m, req_path = p, req_body = b\<rparr>"
  have s: "s \<noteq> []" "CHR ''/'' \<notin> set s" using assms(2) by (simp_all add: plain_elem_def)
  have "spec_route m' p None = None" "spec_route m' (p @ ''/'') None = None" for m'
    by (simp_all add: p_def spec_route_def id_path_def)
  then have lk: "lookup_path (tree_of rt m') p = None" "lookup_path (tree_of rt m') (p @ ''/'') = None" for m'
    using app_lookup_None [OF assms(1)] by blast+
  have el: "request_elems p = Some [''v1'', ''v1'', ''movies'', s]"
    "request_elems (p @ ''/'') = Some [''v1'', ''v1'', ''movies'', s, []]"
    using s by (simp_all add: p_def request_elems_def split_on_no_sep split_on_append_sep)
  have "ci_lookup (tree_of rt m) [''v1'', ''v1'', ''movies'', s] = None"
    "ci_lookup (tree_of rt m) [''v1'', ''v1'', ''movies'', s, []] = None"
    by (rule ci_lookup_app_None [OF assms(1)]; simp)+
  then have ci: "ci_path (tree_of rt m) p = None" "ci_path (tree_of rt m) (p @ ''/'') = None"
    using el by (simp_all add: ci_path_def)
  have "last s \<in> set s" using s(1) by simp
  then have tg: "toggle_slash p = p @ ''/''" using s(2) by (auto simp: p_def toggle_slash_def)
  have cl: "CleanPath p = p"
    using CleanPath_plain [of "[''v1'', ''v1'', ''movies'', s]"] assms(2) by (simp add: p_def plain_elem_def)
  have ns: "p \<noteq> ''*''" "p \<noteq> ''/''" by (simp_all add: p_def)
  have un: "serve_unmatched rt \<lparr>req_method = m', req_path = p, req_body = b\<rparr> = notFoundResponse" for m'
    using lk ns app_router_fields [OF assms(1)]
    by (simp add: serve_unmatched_def Let_def allowed_def not_found_def)
  have "ServeHTTP rt db ?req = (db, notFoundResponse)"
  proof (cases "map_of (trees rt) m")
    case None
    then show ?thesis using un by (simp add: ServeHTTP_def)
  next
    case (Some root)
    then have "root = tree_of rt m" by (simp add: tree_of_def)
    then show ?thesis
      using Some lk ns tg cl ci un app_router_fields [OF assms(1)]
      by (simp add: ServeHTTP_def Let_def tsr_def findCaseInsensitivePath_def)
  qed
  then show ?thesis by (simp only: p_def)
qed

end
