(* ===== verification/Spec2Isabelle.thy ===== *)
theory Spec2Isabelle
  imports Service
begin

text \<open>
  \<^bold>\<open>A verification development of the module-info CRUD API\<close>
  (\<open>src/golang\<close>: a Go HTTP service over one PostgreSQL table).

  \<^bold>\<open>The program.\<close>  The router (\<open>cmd/api/routers.go\<close>) sends five routes to
  handlers (\<open>cmd/api/module.go\<close>); a handler decodes the request, validates
  the record (\<open>ValidateModel\<close> of \<open>internal/data/movies.go\<close>, with the
  validator helper), calls the record store \<open>ModelModel\<close>
  (\<open>Insert\<close>, \<open>Get\<close>, \<open>Update\<close>, \<open>Delete\<close> of \<open>movies.go\<close>), which runs one
  parameterised SQL statement through \<open>database/sql\<close> and \<open>lib/pq\<close>, and
  writes a JSON envelope.  Updates are meant to be optimistic: the \<open>UPDATE\<close>
  matches on id and version and bumps the version.

  \<^bold>\<open>The theories.\<close>
  \<^item> \<open>Prelude\<close>: Go's \<open>int64\<close>/\<open>int32\<close> as \<open>64 word\<close>/\<open>32 word\<close> read by
    \<open>sint\<close>, \<open>time.Time\<close> as seconds from Go's zero time, nil-able slices,
    the \<open>go_int_simps\<close> range facts.
  \<^item> \<open>Validator\<close> (spec section 4.1; source not in the repository): the
    error map as an association list, first message per field wins.
  \<^item> \<open>Database\<close>: the table (a map from id to row, the \<open>bigserial\<close>
    sequence, whether the server is reachable), the four statements of
    \<open>movies.go\<close> (\<open>insert_query\<close>, \<open>select_query\<close>, \<open>update_query\<close>,
    \<open>delete_query\<close>), the driver's round trip \<open>run\<close> (connection, argument
    count against placeholders, atomic statement) and \<open>Row.Scan\<close>
    (\<open>row_scan\<close>); the table invariant \<open>db_inv\<close> and that every statement
    keeps it.
  \<^item> \<open>Models\<close>: \<open>ModelInfo\<close>, the store's errors, \<open>ValidateModel\<close>.
  \<^item> \<open>Store\<close>: the four methods of \<open>ModelModel\<close>, each as the code builds
    its arguments, scans and maps errors.
  \<^item> \<open>Helpers\<close> (source not in the repository): \<open>readIDParam\<close>
    (\<open>strconv.ParseInt\<close>), \<open>readJSON\<close> (\<open>encoding/json\<close> into the input
    struct), \<open>writeJSON\<close>, the error responses, and \<open>%d\<close> printing.
  \<^item> \<open>Handlers\<close>: the four handlers of \<open>module.go\<close> and the healthcheck; the
    update handler is its two round trips composed.
  \<^item> \<open>System\<close>: the requests as a datatype with \<open>handle\<close>, and \<open>sys_step\<close>,
    an inductive interleaving of requests (update requests in two steps) and
    connectivity changes, with the reachable states and their invariants
    (\<open>sys_inv\<close>; \<open>rows_valid\<close>: every stored row meets the specification's
    record constraints).
  \<^item> \<open>Path\<close>: URL paths split into elements and joined, httprouter's
    \<open>CleanPath\<close> and the cleaning of \<open>http.Redirect\<close>.
  \<^item> \<open>Router\<close>: \<open>routes()\<close> of \<open>routers.go\<close> over a model of httprouter
    (\<open>Handle\<close> with its registration panics, \<open>ServeHTTP\<close> with lookup,
    redirects, automatic \<open>OPTIONS\<close>, 405 and 404, \<open>allowed\<close> with its
    in-place insertion sort), the specification's route table
    \<open>spec_route\<close>, and the proof that the two agree on every path.
  \<^item> \<open>Service\<close>: the server's loop \<open>serve_seq\<close>, serving requests one
    after another against one database, and the classification of every
    answer of \<open>ServeHTTP\<close> (a handler's, a 301/307 redirect, the router's
    own) with the statuses each can have, and the \<open>Location\<close> header of a
    created record followed as a client resolves it (\<open>resolve_path\<close> of
    \<open>Path\<close>, RFC 3986's merge of a relative reference).
  \<open>Store\<close> also holds \<open>Models\<close>/\<open>NewModels\<close> of \<open>models.go\<close>.

  \<^bold>\<open>What is proved\<close> (claims C1 to C28 below).  The two central operations
  of the store are defective as written: \<open>Get\<close> scans seven destinations from
  a six-column \<open>SELECT\<close> and fails on every existing row (C1), and \<open>Update\<close>
  binds four arguments to a five-placeholder statement, dropping the expected
  version, and never reaches the table (C2).  Hence the show and update
  handlers never answer 200 (C3, C4), and in every reachable state every row
  still has version 1 and no update request is pending (C19, C20).  The
  statements themselves are right: the conditional \<open>UPDATE\<close> is a
  compare-and-set on the version (C10, C11), of two writers that read the same
  version exactly one succeeds (C12); an inserted row reads back through the
  \<open>SELECT\<close> (C13).  Create stores exactly the validated input with version 1
  and answers 201 (C5), validation accepts exactly the specification's
  records and reports the first failing message per field (C8, C9), bad
  bodies and invalid records change nothing (C6, C7); delete removes exactly
  the row (C14 to C17); in every reachable state, under any interleaving,
  each stored row meets the specification's record constraints (C18).  The
  \<open>Location\<close> header of a created record, relative for want of a leading
  slash, resolves to a path the router answers 404 (C21); a validated name
  with a NUL byte is a server error and stores nothing (C22).  The router
  built by \<open>routes()\<close> registers without a panic and refines the
  specification's route table (C23); a known path with a wrong method gets
  405 with a sorted \<open>Allow\<close> list (C24), equal to the specification-level list
  whatever order Go iterates its map of trees in (C27); but \<open>OPTIONS\<close> is
  answered 200 by the router itself (C25) and a trailing slash is redirected
  rather than answered 404 (C26), neither of which the specification
  describes.  Over any sequence of requests every answer has a status among
  200, 201, 301, 307, 400, 404, 405, 422 and 500, never the 409 the code
  prepares for edit conflicts (C28).

  Facts of the environment rather than of the code (the table invariant
  \<open>db_inv\<close>, which the database model keeps for any statement; the \<open>integer\<close>
  and \<open>bigserial\<close> range checks written into the statements' semantics) are
  lemmas of \<open>Database\<close> and \<open>Store\<close> used by the claims, not claims.

  \<^bold>\<open>Bounds and fuel.\<close>  No loop of the program runs unboundedly: every
  recursion of the model is structural (lists, digits, path elements), and
  the two loops of httprouter's insertion sort terminate by the measures
  \<open>j\<close> and \<open>l - i\<close> (\<open>l\<close> the length fixed before the loop, as in Go).  The only bounds are
  the machine ranges, kept at their width: ids in \<open>int64\<close> and the sequence
  up to \<open>2^63 - 1\<close>, durations and versions in \<open>int32\<close>.  No claim is of
  the termination kind for the same reason: the program itself has no loop,
  and the library loops it reaches are total functions whose termination
  Isabelle checks when they are defined.

  \<^bold>\<open>Not modelled.\<close>  The HTTP server beyond its request loop, byte-level JSON parsing and
  printing (a body is a JSON value or malformed), connection pooling,
  \<open>main\<close> and configuration, logging, and the cross-type conversions of
  \<open>database/sql\<close> that no scan of the code reaches.  Of httprouter: the
  catch-all patterns and the panic handler (\<open>routes()\<close> uses neither), case
  folding beyond ASCII letters, and the URL escaping of redirect targets
  (paths here are ASCII that needs none); its tree is modelled by what its
  documentation promises, a list of patterns per method.
\<close>

subsection \<open>Concrete data for the witnesses\<close>

definition demo_row :: row where
  "demo_row =
     \<lparr>col_created_at = 0, col_updated_at = 0, col_module_name = ''Intro to Systems'',
      col_module_duration = 60, col_exam_type = Some [''core'', ''year1''], col_version = 1\<rparr>"

definition demo_db :: database where
  "demo_db = \<lparr>rows = [1 \<mapsto> demo_row], next_id = 2, online = True\<rparr>"

definition demo_body :: "json option" where
  "demo_body =
     Some (JObject [(''module_name'', JString ''Intro to Systems''),
                    (''module_duration'', JNumber 60),
                    (''exam_type'', JArray [JString ''core'', JString ''year1''])])"

definition demo_input :: ModelInput where
  "demo_input =
     \<lparr>inModuleName = ''Intro to Systems'', inModuleDuration = 60,
      inExamType = Some [''core'', ''year1'']\<rparr>"

lemma readJSON_demo_body: "readJSON demo_body = Inr demo_input"
  by (simp add: demo_body_def demo_input_def readJSON_def decode_field_def key_matches_def
      lower_ascii_def empty_input_def in_int32_def)

lemma model_valid_demo_input: "model_valid (new_model demo_input)"
  by (simp add: model_valid_code new_model_def demo_input_def)

lemma valid_demo_input:
  "valid_text (inModuleName demo_input) \<and> valid_array (inExamType demo_input)"
  by (simp add: demo_input_def valid_text_def valid_array_def)

lemma db_inv_demo_db: "db_inv demo_db"
  by (simp add: demo_db_def db_inv_def row_inv_def demo_row_def in_int32_def)

subsection \<open>The record store\<close>

text \<open>C1. \<open>Get\<close> fails on every record that exists: the \<open>SELECT\<close> returns six
  columns and the scan has seven destinations, so \<open>Row.Scan\<close> reports the
  count mismatch, which the handlers turn into a server error.\<close>

theorem Get_existing_row_fails:
  "1 \<le> sint i \<Longrightarrow> online db \<Longrightarrow> rows db (sint i) = Some r \<Longrightarrow>
     Get db i = Inl (ErrSql (ErrScanCount 6 7))"
  by (simp add: Get_eq)

theorem Get_existing_row_fails_witness:
  "Get demo_db 1 = Inl (ErrSql (ErrScanCount 6 7))"
  using Get_existing_row_fails [of 1 demo_db demo_row] by (simp add: demo_db_def)

text \<open>C2. \<open>Update\<close> never reaches the table: it binds four arguments to a
  statement with five placeholders (the expected version \<open>$5\<close> is never
  passed), so the driver refuses it; the table is unchanged and the caller
  gets a generic error, never \<open>ErrEditConflict\<close> and never success.\<close>

theorem Update_always_fails:
  "Update db model =
     (db, Inl (ErrSql (if online db then ErrBindCount 4 5 else ErrConnection)))"
  by (simp add: Update_def)

subsection \<open>The handlers\<close>

text \<open>C3. The update handler never succeeds and never changes the table:
  it answers 404 for a bad or unknown id and 500 otherwise.\<close>

theorem updateModelHandler_never_succeeds:
  "fst (updateModelHandler db ps b) = db \<and>
   status (snd (updateModelHandler db ps b)) \<in> {404, 500}"
  by (simp add: updateModelHandler_eq update_prepare_eq split: option.splits)

text \<open>C4. The show handler never answers 200: 404 for a bad or unknown id,
  500 for every record that exists.\<close>

theorem showModelHandler_never_succeeds:
  "fst (showModelHandler db ps) = db \<and>
   status (snd (showModelHandler db ps)) \<in> {404, 500}"
  by (simp add: showModelHandler_eq split: option.splits)

text \<open>C5. Creating a valid record stores exactly the input under the
  sequence's next id with version 1 and Go's zero time as both timestamps,
  and answers 201 with the record and a \<open>Location\<close> header for its id.\<close>

theorem createModelHandler_stores:
  assumes "db_inv db" "online db" "readJSON reqbody = Inr input"
    "model_valid (new_model input)" "valid_text (inModuleName input)"
    "valid_array (inExamType input)" "next_id db < 2 ^ 63"
  shows "createModelHandler db reqbody =
     (db\<lparr>rows := (rows db)(next_id db \<mapsto> inserted_row (new_model input)), next_id := next_id db + 1\<rparr>,
      \<lparr>status = 201, headers = [(''Location'', location (word_of_int (next_id db)))],
       body = EnvModel ((new_model input)\<lparr>ID := word_of_int (next_id db), Version := 1\<rparr>)\<rparr>)"
  using assms
  by (simp add: createModelHandler_def Valid_ValidateModel_iff Let_def Insert_eq
      writeJSON_def new_model_def)

theorem createModelHandler_stores_witness:
  "status (snd (createModelHandler empty_database demo_body)) = 201 \<and>
   rows (fst (createModelHandler empty_database demo_body)) 1 =
     Some (inserted_row (new_model demo_input))"
  using createModelHandler_stores [OF db_inv_empty _ readJSON_demo_body model_valid_demo_input]
    valid_demo_input
  by (simp add: empty_database_def)

text \<open>C6. A record that fails validation is answered with 422 and the
  validator's messages, and nothing is inserted.\<close>

theorem createModelHandler_rejects_invalid:
  "readJSON reqbody = Inr input \<Longrightarrow> \<not> model_valid (new_model input) \<Longrightarrow>
     createModelHandler db reqbody =
       (db, failedValidationResponse (Errors (ValidateModel New (new_model input))))"
  by (simp add: createModelHandler_def Valid_ValidateModel_iff Let_def)

theorem createModelHandler_rejects_invalid_witness:
  "createModelHandler demo_db (Some JNull) =
     (demo_db, failedValidationResponse (Errors (ValidateModel New (new_model empty_input))))"
  using createModelHandler_rejects_invalid [of "Some JNull" empty_input demo_db]
  by (simp add: readJSON_def model_valid_code new_model_def empty_input_def)

text \<open>C7. A body that does not decode is answered with 400 and nothing is
  inserted.\<close>

theorem createModelHandler_bad_body:
  "readJSON reqbody = Inl err \<Longrightarrow> createModelHandler db reqbody = (db, badRequestResponse err)"
  by (simp add: createModelHandler_def)

theorem createModelHandler_bad_body_witness:
  "createModelHandler demo_db None = (demo_db, badRequestResponse JsonSyntaxError)"
  using createModelHandler_bad_body [of None JsonSyntaxError demo_db]
  by (simp add: readJSON_def)

subsection \<open>Validation\<close>

text \<open>C8. \<open>ValidateModel\<close> refines the specification's data model: a fresh
  validator ends with no errors exactly when the record satisfies the
  invariants of section 3, and its errors never name a field twice.\<close>

theorem ValidateModel_refines_model_valid:
  "(Errors (ValidateModel New m) = []) = model_valid m \<and>
   distinct (map fst (Errors (ValidateModel New m)))"
  using Valid_ValidateModel_iff [of New m] wf_ValidateModel [OF wf_New, of m]
  by (simp add: Valid_def wf_validator_def New_def)

text \<open>C9. The message of each field is the first failing check's, in the
  code's order; no other field is reported.\<close>

theorem ValidateModel_messages:
  "map_of (Errors (ValidateModel New m)) k =
     (if k = ''modul_name'' then
        (if ModuleName m = [] then Some ''must be provided''
         else if 500 < length (ModuleName m) then Some ''must not be more than 500 bytes long''
         else None)
      else if k = ''runtime'' then
        (if ModuleDuration m = 0 then Some ''must be provided''
         else if sint (ModuleDuration m) \<le> 0 then Some ''must be a positive integer''
         else None)
      else if k = ''exam_type'' then
        (if ExamType m = None then Some ''must be provided''
         else if slice_elems (ExamType m) = [] then Some ''must contain at least 1 genre''
         else if 5 < length (slice_elems (ExamType m)) then Some ''must not contain more than 5 genres''
         else if \<not> distinct (slice_elems (ExamType m)) then Some ''must not contain duplicate values''
         else None)
      else None)"
  by (simp add: ValidateModel_def Let_def map_of_Check New_def)

subsection \<open>The SQL statements\<close>

text \<open>C10. The conditional \<open>UPDATE\<close> of \<open>movies.go\<close>, given the five
  arguments its text asks for, matches no row when the id is absent or the
  expected version is stale, and then leaves the table unchanged: the
  signal the store maps to \<open>ErrEditConflict\<close>.\<close>

theorem update_query_stale_version:
  assumes "online db" "\<not> (\<exists>r. rows db k = Some r \<and> col_version r = ver)"
    "in_int32 d" "in_int32 ver" "valid_text n" "valid_array et"
  shows "run db UpdateModuleInfo [SqlText n, SqlInt d, array_value et, SqlInt k, SqlInt ver] =
     (db, Inr (0, []))"
  using assms by (auto split: option.splits)

theorem update_query_stale_version_witness:
  "run demo_db UpdateModuleInfo
     [SqlText ''x'', SqlInt 60, array_value (Some [''core'']), SqlInt 1, SqlInt 5] =
   (demo_db, Inr (0, []))"
  by (rule update_query_stale_version)
     (simp_all add: demo_db_def demo_row_def in_int32_def valid_text_def valid_array_def)

text \<open>C11. With the current version the same statement replaces the three
  mutable columns, bumps the version by exactly one and returns it; nothing
  else of the table changes.\<close>

theorem update_query_current_version:
  assumes "db_inv db" "online db" "rows db k = Some r" "col_version r = ver"
    "ver < 2 ^ 31 - 1" "in_int32 d" "valid_text n" "valid_array et"
  shows "run db UpdateModuleInfo [SqlText n, SqlInt d, array_value et, SqlInt k, SqlInt ver] =
     (db\<lparr>rows := (rows db)(k \<mapsto> r\<lparr>col_module_name := n, col_module_duration := d,
                                   col_exam_type := et, col_version := ver + 1\<rparr>)\<rparr>,
      Inr (1, [[SqlInt (ver + 1)]]))"
proof -
  have "1 \<le> ver" using db_inv_row [OF assms(1,3)] assms(4) by (simp add: row_inv_def)
  with assms show ?thesis by (simp add: in_int32_def)
qed

theorem update_query_current_version_witness:
  "run demo_db UpdateModuleInfo
     [SqlText ''x'', SqlInt 90, array_value (Some [''core'']), SqlInt 1, SqlInt 1] =
   (demo_db\<lparr>rows := [1 \<mapsto> demo_row\<lparr>col_module_name := ''x'', col_module_duration := 90,
        col_exam_type := Some [''core''], col_version := 2\<rparr>]\<rparr>, Inr (1, [[SqlInt 2]]))"
  using update_query_current_version [OF db_inv_demo_db, of 1 demo_row 1 90 "''x''" "Some [''core'']"]
  by (simp add: demo_db_def demo_row_def in_int32_def valid_text_def valid_array_def)

text \<open>C12. Optimistic concurrency: of two writers that read the same
  version and update in turn, the first succeeds and the second matches no
  row and changes nothing, whatever it writes.\<close>

theorem update_query_one_winner:
  assumes "db_inv db" "online db" "rows db k = Some r" "col_version r = ver"
    "ver < 2 ^ 31 - 1" "in_int32 d1" "in_int32 d2" "valid_text n1" "valid_text n2"
    "valid_array et1" "valid_array et2"
  shows "(let (db1, r1) = run db UpdateModuleInfo [SqlText n1, SqlInt d1, array_value et1, SqlInt k, SqlInt ver];
              (db2, r2) = run db1 UpdateModuleInfo [SqlText n2, SqlInt d2, array_value et2, SqlInt k, SqlInt ver]
          in r1 = Inr (1, [[SqlInt (ver + 1)]]) \<and> r2 = Inr (0, []) \<and> db2 = db1)"
proof -
  have "1 \<le> ver" using db_inv_row [OF assms(1,3)] assms(4) by (simp add: row_inv_def)
  with assms show ?thesis by (simp add: in_int32_def)
qed

theorem update_query_one_winner_witness:
  "(let (db1, r1) = run demo_db UpdateModuleInfo [SqlText ''a'', SqlInt 1, array_value (Some [''x'']), SqlInt 1, SqlInt 1];
        (db2, r2) = run db1 UpdateModuleInfo [SqlText ''b'', SqlInt 2, array_value (Some [''y'']), SqlInt 1, SqlInt 1]
    in r1 = Inr (1, [[SqlInt 2]]) \<and> r2 = Inr (0, []) \<and> db2 = db1)"
  using update_query_one_winner [OF db_inv_demo_db, of 1 demo_row 1 1 2 "''a''" "''b''"
      "Some [''x'']" "Some [''y'']"]
  by (simp add: demo_db_def demo_row_def in_int32_def valid_text_def valid_array_def)

text \<open>C13. What \<open>Insert\<close> stores reads back through the \<open>SELECT\<close> of
  \<open>Get\<close> under the returned id: the user fields as given, version 1.\<close>

theorem Insert_then_select:
  assumes "db_inv db" "online db" "valid_text (ModuleName m)" "valid_array (ExamType m)"
    "next_id db < 2 ^ 63" "Insert db m = (db', Inr m')"
  shows "run db' SelectModuleInfo [SqlInt (sint (ID m'))] =
     (db', Inr (1, [[SqlInt (sint (ID m')), SqlTime (CreatedAt m), SqlText (ModuleName m),
                     SqlInt (sint (ModuleDuration m)), array_value (ExamType m), SqlInt 1]]))
   \<and> Version m' = 1"
proof -
  have "in_int64 (next_id db)" using assms(1,5) by (simp add: db_inv_def in_int64_def)
  with assms show ?thesis
    by (auto simp: Insert_eq [OF assms(1)] inserted_row_def go_int_simps)
qed

theorem Insert_then_select_witness:
  "run (fst (Insert empty_database (new_model demo_input))) SelectModuleInfo [SqlInt 1] =
     (fst (Insert empty_database (new_model demo_input)),
      Inr (1, [[SqlInt 1, SqlTime 0, SqlText ''Intro to Systems'', SqlInt 60,
                SqlTextArray [''core'', ''year1''], SqlInt 1]]))"
proof -
  let ?m' = "(new_model demo_input)\<lparr>ID := 1, Version := 1\<rparr>"
  have ins: "Insert empty_database (new_model demo_input) =
      (fst (Insert empty_database (new_model demo_input)), Inr ?m')"
    using valid_demo_input by (simp add: Insert_eq [OF db_inv_empty] new_model_def)
  show ?thesis
    using Insert_then_select [OF db_inv_empty _ _ _ _ ins] valid_demo_input
    by (simp add: new_model_def demo_input_def go_zero_time_def)
qed

subsection \<open>Deleting\<close>

text \<open>C14. Deleting an existing record removes exactly its row, and a
  later \<open>Get\<close> of the id reports \<open>ErrRecordNotFound\<close>.\<close>

theorem Delete_then_Get:
  assumes "1 \<le> sint i" "online db" "rows db (sint i) = Some r"
  shows "snd (Delete db i) = Inr () \<and> rows (fst (Delete db i)) = (rows db)(sint i := None) \<and>
         Get (fst (Delete db i)) i = Inl ErrRecordNotFound"
  using assms by (simp add: Delete_eq Get_eq)

theorem Delete_then_Get_witness:
  "snd (Delete demo_db 1) = Inr () \<and> rows (fst (Delete demo_db 1)) = Map.empty \<and>
   Get (fst (Delete demo_db 1)) 1 = Inl ErrRecordNotFound"
  using Delete_then_Get [of 1 demo_db demo_row] by (simp add: demo_db_def)

text \<open>C15. An id below 1 is reported as not found without any query, even
  when the database is unreachable.\<close>

theorem nonpositive_id_not_found:
  "sint i < 1 \<Longrightarrow> Delete db i = (db, Inl ErrRecordNotFound) \<and> Get db i = Inl ErrRecordNotFound"
  by (simp add: Delete_def Get_def)

theorem nonpositive_id_not_found_witness:
  "Delete (demo_db\<lparr>online := False\<rparr>) 0 = (demo_db\<lparr>online := False\<rparr>, Inl ErrRecordNotFound) \<and>
   Get (demo_db\<lparr>online := False\<rparr>) 0 = Inl ErrRecordNotFound"
  using nonpositive_id_not_found [of 0] by simp

text \<open>C16. Deleting an id with no row is reported as not found (zero rows
  affected) and changes nothing.\<close>

theorem Delete_missing_not_found:
  "1 \<le> sint i \<Longrightarrow> online db \<Longrightarrow> rows db (sint i) = None \<Longrightarrow>
     Delete db i = (db, Inl ErrRecordNotFound)"
  by (simp add: Delete_eq)

theorem Delete_missing_not_found_witness:
  "Delete demo_db 7 = (demo_db, Inl ErrRecordNotFound)"
  using Delete_missing_not_found [of 7 demo_db] by (simp add: demo_db_def)

text \<open>C17. The delete handler on every branch: 404 for a bad, non-positive
  or unknown id, 500 when the database is unreachable, and 200 with the
  confirmation message after removing exactly the row.\<close>

theorem deleteModelHandler_behaviour:
  "deleteModelHandler db ps =
     (case readIDParam ps of
        None \<Rightarrow> (db, notFoundResponse)
      | Some i \<Rightarrow>
          if sint i < 1 then (db, notFoundResponse)
          else if \<not> online db then (db, serverErrorResponse)
          else case rows db (sint i) of
                 None \<Rightarrow> (db, notFoundResponse)
               | Some _ \<Rightarrow> (db\<lparr>rows := (rows db)(sint i := None)\<rparr>,
                   \<lparr>status = 200, headers = [], body = EnvMessage ''model succesfully deleted''\<rparr>))"
  by (simp add: deleteModelHandler_def Delete_eq writeJSON_def split: option.splits)

subsection \<open>The running service\<close>

lemma reachable_after_create:
  "reachable (init_sys\<lparr>store := fst (handle (store init_sys) (CreateModel demo_body))\<rparr>)"
  by (rule reachable.step [OF reachable.start sys_step.single]) simp

lemma rows_after_create:
  "rows (fst (handle (store init_sys) (CreateModel demo_body))) 1 =
     Some (inserted_row (new_model demo_input))"
  using valid_demo_input model_valid_demo_input
  by (simp add: init_sys_def createModelHandler_db readJSON_demo_body
      Insert_eq [OF db_inv_empty] new_model_def)

text \<open>C18. In every reachable state every stored row meets the
  specification's record constraints (a name of 1 to 500 characters, a
  positive duration, 1 to 5 distinct exam types): the create handler stores
  only records that pass \<open>ValidateModel\<close>, and no other request writes a
  row.\<close>

theorem reachable_rows_valid:
  "reachable s \<Longrightarrow> rows (store s) k = Some r \<Longrightarrow> row_valid r"
  using reachable_rows_valid_store by (auto simp: rows_valid_def)

theorem reachable_rows_valid_witness: "row_valid (inserted_row (new_model demo_input))"
  using reachable_rows_valid [OF reachable_after_create, of 1] rows_after_create by simp

text \<open>C19. In every reachable state every row still has version 1: no
  request of the service, interleaved in any order, ever bumps a version.\<close>

theorem reachable_versions_initial:
  "reachable s \<Longrightarrow> rows (store s) k = Some r \<Longrightarrow> col_version r = 1"
  using reachable_sys_inv by (auto simp: sys_inv_def versions_initial_def)

theorem reachable_versions_initial_witness:
  "col_version (inserted_row (new_model demo_input)) = 1"
  using reachable_versions_initial [OF reachable_after_create, of 1] rows_after_create by simp

text \<open>C20. No update request ever gets past its \<open>Get\<close>: in every
  reachable state no update is waiting to commit.\<close>

theorem reachable_no_pending_update: "reachable s \<Longrightarrow> pending s = []"
  using reachable_sys_inv by (simp add: sys_inv_def)

theorem reachable_no_pending_update_witness:
  "pending (init_sys\<lparr>store := fst (handle (store init_sys) (CreateModel demo_body))\<rparr>) = []"
  using reachable_no_pending_update [OF reachable_after_create] .

subsection \<open>The Location header\<close>

text \<open>C21. The \<open>Location\<close> header of a created record does not lead to
  it: \<open>v1/movies/<id>\<close> has no leading slash, so a client resolves it
  against the request path \<open>/v1/movies\<close> to \<open>/v1/v1/movies/<id>\<close>, which
  the router of \<open>routes()\<close> answers 404 for every method and every id.\<close>

theorem location_not_found:
  assumes "routes = Inr rt"
  shows "resolve_path ''/v1/movies'' (location i) = ''/v1/v1/movies/'' @ format_int64 i \<and>
     ServeHTTP rt db \<lparr>req_method = m, req_path = resolve_path ''/v1/movies'' (location i), req_body = b\<rparr> =
       (db, notFoundResponse)"
  using location_resolved [of i] ServeHTTP_deep_path [OF assms format_int64_plain [of i]] by simp

theorem location_not_found_witness:
  "resolve_path ''/v1/movies'' (location 7) = ''/v1/v1/movies/7'' \<and>
   ServeHTTP app_router demo_db \<lparr>req_method = ''GET'', req_path = ''/v1/v1/movies/7'', req_body = None\<rparr> =
     (demo_db, notFoundResponse)"
proof -
  have e: "resolve_path ''/v1/movies'' (location 7) = ''/v1/v1/movies/7''"
    by (simp add: resolve_path_def location_def format_int64_def dec_string.simps digit_char_def
        char_of_def bit_iff_odd)
  show ?thesis
    using location_not_found [OF routes_eq, of 7 demo_db "''GET''" None] unfolding e by blast
qed

subsection \<open>Errors of the database\<close>

text \<open>C22. A record that passes validation but whose name holds a NUL byte
  (valid JSON, \<open>\u0000\<close>) is refused by PostgreSQL: the create handler answers
  500 and nothing is stored.\<close>

theorem createModelHandler_nul_name:
  assumes "db_inv db" "online db" "readJSON reqbody = Inr input"
    "model_valid (new_model input)" "CHR 0x00 \<in> set (inModuleName input)"
  shows "createModelHandler db reqbody = (db, serverErrorResponse)"
  using assms
  by (simp add: createModelHandler_def Valid_ValidateModel_iff Let_def Insert_eq
      new_model_def valid_text_def)

theorem createModelHandler_nul_name_witness:
  "createModelHandler demo_db
     (Some (JObject [(''module_name'', JString [CHR ''a'', CHR 0x00]),
                     (''module_duration'', JNumber 60), (''exam_type'', JArray [JString ''core''])]))
   = (demo_db, serverErrorResponse)"
proof -
  have r: "readJSON (Some (JObject [(''module_name'', JString [CHR ''a'', CHR 0x00]),
      (''module_duration'', JNumber 60), (''exam_type'', JArray [JString ''core''])])) =
    Inr \<lparr>inModuleName = [CHR ''a'', CHR 0x00], inModuleDuration = 60, inExamType = Some [''core'']\<rparr>"
    by (simp add: readJSON_def decode_field_def key_matches_def lower_ascii_def
        empty_input_def in_int32_def)
  show ?thesis
    by (rule createModelHandler_nul_name [OF db_inv_demo_db _ r])
       (simp_all add: demo_db_def model_valid_code new_model_def)
qed

subsection \<open>The router\<close>

text \<open>C23. The router refines the specification's route table: a request
  whose method and exact path name an endpoint (\<open>:id\<close> one non-empty
  element) runs that endpoint's handler with the element as its \<open>id\<close>
  parameter and the body.\<close>

theorem ServeHTTP_refines_spec_route:
  assumes "routes = Inr rt" "spec_route m p b = Some rq"
  shows "ServeHTTP rt db \<lparr>req_method = m, req_path = p, req_body = b\<rparr> = handle db rq"
proof -
  have m: "m \<in> set [''GET'', ''POST'', ''PATCH'', ''DELETE'']" using spec_route_methods assms(2) by auto
  then have t: "map_of (trees rt) m = Some (tree_of rt m)"
    using assms(1) by (auto simp: app_trees_eq tree_of_def app_trees_def)
  obtain h ps where l: "lookup_path (tree_of rt m) p = Some (h, ps)" "h ps b = rq"
    using spec_route_lookup [OF assms] by auto
  show ?thesis using ServeHTTP_matched [OF _ _, of rt "\<lparr>req_method = m, req_path = p, req_body = b\<rparr>"] t l by simp
qed

theorem ServeHTTP_refines_spec_route_witness:
  "ServeHTTP app_router demo_db \<lparr>req_method = ''DELETE'', req_path = ''/v1/movies/1'', req_body = None\<rparr> =
     handle demo_db (DeleteModel [(''id'', ''1'')])"
  using ServeHTTP_refines_spec_route [OF routes_eq, of "''DELETE''" "''/v1/movies/1''" None]
  by (simp add: spec_route_def id_path_def)

text \<open>C24. A path of the table requested with a method it does not have is
  answered 405 by the application's handler, with an \<open>Allow\<close> header
  listing the path's methods and \<open>OPTIONS\<close> in sorted order (the paths
  \<open>/v1/movies/.\<close> and \<open>/v1/movies/..\<close> excepted: cleaning redirects them).\<close>

theorem ServeHTTP_method_not_allowed:
  assumes "routes = Inr rt" "m \<noteq> ''OPTIONS''" "spec_route m p b = None" "spec_methods p \<noteq> []"
    "p \<noteq> ''/v1/movies/.''" "p \<noteq> ''/v1/movies/..''"
  shows "ServeHTTP rt db \<lparr>req_method = m, req_path = p, req_body = b\<rparr> =
     (db, (methodNotAllowedResponse m)\<lparr>headers := [(''Allow'', spec_allow p)]\<rparr>)"
proof -
  let ?req = "\<lparr>req_method = m, req_path = p, req_body = b\<rparr>"
  obtain m' where m': "spec_route m' p b \<noteq> None" using spec_methods_ex [OF assms(4)] by blast
  have "allowed rt (map fst (trees rt)) p m = spec_allow p"
    using allowed_app [OF assms(1) _ assms(3)] spec_route_not_star [OF m'] by blast
  then have u: "serve_unmatched rt ?req = (methodNotAllowedResponse m)\<lparr>headers := [(''Allow'', spec_allow p)]\<rparr>"
    using assms(2,4) app_router_fields [OF assms(1)]
    by (simp add: serve_unmatched_def method_not_allowed_def spec_allow_Nil_iff)
  have "ServeHTTP rt db ?req = (db, serve_unmatched rt ?req)"
  proof (cases "m \<in> set [''GET'', ''POST'', ''PATCH'', ''DELETE'']")
    case True
    then show ?thesis
      using no_redirect_spec_path [OF assms(1) m' assms(3,5,6)] app_map_of [OF assms(1), of m]
        app_router_fields [OF assms(1)]
      by (simp add: ServeHTTP_def Let_def)
  next
    case False
    then show ?thesis using app_map_of [OF assms(1), of m] by (intro ServeHTTP_no_tree) simp
  qed
  then show ?thesis using u by simp
qed

theorem ServeHTTP_method_not_allowed_witness:
  "ServeHTTP app_router demo_db \<lparr>req_method = ''PUT'', req_path = ''/v1/movies/1'', req_body = None\<rparr> =
     (demo_db, (methodNotAllowedResponse ''PUT'')\<lparr>headers := [(''Allow'', ''DELETE, GET, OPTIONS, PATCH'')]\<rparr>)"
  using ServeHTTP_method_not_allowed [OF routes_eq, of "''PUT''" "''/v1/movies/1''" None demo_db]
  by (simp add: spec_route_def id_path_def spec_methods_def spec_allow_def)

text \<open>C25. \<open>OPTIONS\<close> is never routed to a handler and never answered 405:
  httprouter answers it itself, 200 with an empty body and the path's
  \<open>Allow\<close> list (every method for \<open>*\<close>), or 404 for a path of no route.\<close>

theorem ServeHTTP_OPTIONS:
  assumes "routes = Inr rt"
  shows "ServeHTTP rt db \<lparr>req_method = ''OPTIONS'', req_path = p, req_body = b\<rparr> =
     (db, if p = ''*'' then options_response ''DELETE, GET, OPTIONS, PATCH, POST''
          else if spec_methods p = [] then notFoundResponse else options_response (spec_allow p))"
proof -
  have "spec_route ''OPTIONS'' p b = None" using spec_route_methods by fastforce
  then have "p \<noteq> ''*'' \<Longrightarrow> allowed rt (map fst (trees rt)) p ''OPTIONS'' = spec_allow p"
    using allowed_app [OF assms] by blast
  moreover have "allowed rt (map fst (trees rt)) ''*'' ''OPTIONS'' = ''DELETE, GET, OPTIONS, PATCH, POST''"
    using assms by (simp add: allowed_def app_trees_eq app_trees_def sort_allowed_sort)
  ultimately show ?thesis
    using app_router_fields [OF assms] app_map_of [OF assms, of "''OPTIONS''"]
    by (simp add: ServeHTTP_no_tree serve_unmatched_def not_found_def spec_allow_Nil_iff Let_def)
qed

theorem ServeHTTP_OPTIONS_witness:
  "ServeHTTP app_router demo_db \<lparr>req_method = ''OPTIONS'', req_path = ''/v1/movies'', req_body = None\<rparr> =
     (demo_db, options_response ''OPTIONS, POST'')"
  using ServeHTTP_OPTIONS [OF routes_eq, of demo_db "''/v1/movies''" None]
  by (simp add: spec_route_def id_path_def spec_methods_def spec_allow_def)

text \<open>C26. A path of the table with a trailing slash is not 404: the router
  redirects it to the path without the slash, 301 for \<open>GET\<close> and 307 for
  the other methods, and no handler runs.\<close>

theorem ServeHTTP_trailing_slash_redirect:
  assumes "routes = Inr rt" "spec_route m p b \<noteq> None"
  shows "ServeHTTP rt db \<lparr>req_method = m, req_path = p @ ''/'', req_body = b\<rparr> =
           (db, redirect_response (if m = ''GET'' then 301 else 307) p m)"
proof -
  have m: "map_of (trees rt) m = Some (tree_of rt m)" "m \<noteq> ''CONNECT''"
    using spec_route_methods [OF assms(2)] app_map_of [OF assms(1)] by auto
  have l1: "lookup_path (tree_of rt m) (p @ ''/'') = None"
    using app_lookup_None [OF assms(1)] spec_route_slash [OF assms(2)] by blast
  have l2: "lookup_path (tree_of rt m) p \<noteq> None"
    using app_lookup_None [OF assms(1), of m p b] assms(2) by simp
  have t: "toggle_slash (p @ ''/'') = p" using toggle_slash_spec [OF assms(2)] by simp
  have "p @ ''/'' \<noteq> ''/''" using spec_route_not_star [OF assms(2)] by auto
  then show ?thesis
    using m l1 l2 t app_router_fields [OF assms(1)] by (simp add: ServeHTTP_def Let_def tsr_def)
qed

theorem ServeHTTP_trailing_slash_redirect_witness:
  "ServeHTTP app_router demo_db \<lparr>req_method = ''POST'', req_path = ''/v1/movies/'', req_body = demo_body\<rparr> =
     (demo_db, redirect_response 307 ''/v1/movies'' ''POST'')"
  using ServeHTTP_trailing_slash_redirect [OF routes_eq, of "''POST''" "''/v1/movies''" demo_body demo_db]
  by (simp add: spec_route_def)

text \<open>C27. The \<open>Allow\<close> list of the application's router, built by
  httprouter's in-place insertion sort over Go's map of trees iterated in any
  order, is the specification-level list: the path's methods and
  \<open>OPTIONS\<close>, sorted with \<open>sort\<close> and joined with \<open>, \<close>.\<close>

theorem allowed_equiv_spec_allow:
  assumes "routes = Inr rt" "mset order = mset (map fst (trees rt))" "p \<noteq> ''*''"
    "spec_route m p b = None"
  shows "allowed rt order p m = spec_allow p"
  using allowed_iteration_order [OF assms(2)] allowed_app [OF assms(1,3,4)] by simp

theorem allowed_equiv_spec_allow_witness:
  "allowed app_router [''PATCH'', ''DELETE'', ''GET'', ''POST''] ''/v1/movies/1'' ''PUT'' =
     ''DELETE, GET, OPTIONS, PATCH''"
  using allowed_equiv_spec_allow [OF routes_eq, of "[''PATCH'', ''DELETE'', ''GET'', ''POST'']"
      "''/v1/movies/1''" "''PUT''" None]
  by (simp add: app_router_def app_trees_def spec_route_def id_path_def spec_methods_def spec_allow_def)

text \<open>C28. Whatever sequence of requests the server receives, every answer
  has one of the statuses the program's handlers and the router produce:
  200, 201, 400, 404, 422 or 500 from a handler, 301 or 307 from a redirect,
  200, 404 or 405 from the router itself.  (No answer is 409: the update
  handler never reaches its commit.)\<close>

theorem serve_seq_status:
  assumes "routes = Inr rt"
  shows "\<forall>resp \<in> set (snd (serve_seq rt db qs)).
           status resp \<in> {200, 201, 301, 307, 400, 404, 405, 422, 500}"
proof (induction qs arbitrary: db)
  case (Cons q qs)
  then show ?case using ServeHTTP_status_app [OF assms] by simp
qed simp

theorem serve_seq_status_witness:
  "list_all (\<lambda>resp. status resp \<in> {200, 201, 301, 307, 400, 404, 405, 422, 500})
     (snd (serve_seq app_router empty_database
        [\<lparr>req_method = ''GET'', req_path = ''/v1/healthcheck'', req_body = None\<rparr>,
         \<lparr>req_method = ''PUT'', req_path = ''/v1/movies/1'', req_body = None\<rparr>]))"
  using serve_seq_status [OF routes_eq, of empty_database
      "[\<lparr>req_method = ''GET'', req_path = ''/v1/healthcheck'', req_body = None\<rparr>,
        \<lparr>req_method = ''PUT'', req_path = ''/v1/movies/1'', req_body = None\<rparr>]"]
  by (simp only: list_all_iff)

end
